theory Spec2Isabelle
  imports Main "HOL-Library.Sublist"
begin

section \<open>Python values and formatting used by the analytic service\<close>

text \<open>
  The development embeds \<^verbatim>\<open>python/medifor/v1/analyticservice.py\<close>. Strings are
  Python 3 \<^verbatim>\<open>str\<close> values whose code points lie in the Latin-1 range, one
  \<^typ>\<open>char\<close> per code point. The calls to \<^verbatim>\<open>logging\<close> are left out: they write
  to the log only and touch nothing that is modelled here.
\<close>

definition hexdigit :: "nat \<Rightarrow> char" where
  "hexdigit n = ''0123456789abcdef'' ! (n mod 16)"

definition hex2 :: "nat \<Rightarrow> string" where
  "hex2 n = [hexdigit (n div 16), hexdigit n]"

text \<open>\<^verbatim>\<open>"{}".format(n)\<close> for a non-negative integer \<open>n\<close>: its decimal digits.\<close>

fun str_nat :: "nat \<Rightarrow> string" where
  "str_nat n = (if n < 10 then [hexdigit n] else str_nat (n div 10) @ [hexdigit (n mod 10)])"

declare str_nat.simps [simp del]

definition str_int :: "int \<Rightarrow> string" where
  "str_int i = (if i < 0 then ''-'' @ str_nat (nat (- i)) else str_nat (nat i))"

text \<open>
  \<^verbatim>\<open>str.isprintable\<close> on a single Latin-1 code point: the ASCII range from space to
  tilde, and the upper half without the C1 controls, the no-break space and the soft hyphen.
\<close>

definition printable :: "char \<Rightarrow> bool" where
  "printable c = (let n = (of_char c :: nat) in (32 \<le> n \<and> n < 127) \<or> (161 \<le> n \<and> n \<noteq> 173))"

text \<open>\<^verbatim>\<open>repr\<close> of a \<^verbatim>\<open>str\<close>, which is what the format field \<^verbatim>\<open>{!r}\<close> inserts.\<close>

definition repr_char :: "char \<Rightarrow> char \<Rightarrow> string" where
  "repr_char quote c =
     (if c = quote \<or> c = CHR 0x5C then [CHR 0x5C, c]
      else if c = CHR 0x09 then [CHR 0x5C, CHR ''t'']
      else if c = CHR 0x0A then [CHR 0x5C, CHR ''n'']
      else if c = CHR 0x0D then [CHR 0x5C, CHR ''r'']
      else if printable c then [c]
      else [CHR 0x5C, CHR ''x''] @ hex2 (of_char c))"

definition py_repr :: "string \<Rightarrow> string" where
  "py_repr s =
     (let quote = (if CHR 0x27 \<in> set s \<and> CHR 0x22 \<notin> set s then CHR 0x22 else CHR 0x27)
      in [quote] @ concat (map (repr_char quote) s) @ [quote])"

text \<open>
  The members of \<^verbatim>\<open>grpc.StatusCode\<close> that the service uses. \<^verbatim>\<open>grpc.StatusCode\<close> is
  a plain \<^verbatim>\<open>enum.Enum\<close>, so \<^verbatim>\<open>str\<close> of a member is the class name, a dot and the
  member name.
\<close>

datatype StatusCode = UNIMPLEMENTED | INVALID_ARGUMENT | UNKNOWN

fun str_StatusCode :: "StatusCode \<Rightarrow> string" where
  "str_StatusCode UNIMPLEMENTED = ''StatusCode.UNIMPLEMENTED''"
| "str_StatusCode INVALID_ARGUMENT = ''StatusCode.INVALID_ARGUMENT''"
| "str_StatusCode UNKNOWN = ''StatusCode.UNKNOWN''"

text \<open>
  Exceptions, by the classes the program raises or catches. \<open>ValueError\<close> stands for
  every instance of \<^verbatim>\<open>ValueError\<close> (so also \<^verbatim>\<open>json.JSONDecodeError\<close>),
  \<open>OtherException\<close> for an instance of \<^verbatim>\<open>Exception\<close> of no class named here, and
  \<open>BaseExceptionOnly\<close> for an instance of \<^verbatim>\<open>BaseException\<close> that is not an
  \<^verbatim>\<open>Exception\<close> (\<^verbatim>\<open>KeyboardInterrupt\<close>, \<^verbatim>\<open>SystemExit\<close>, \<^verbatim>\<open>GeneratorExit\<close>).
  The string is \<^verbatim>\<open>str(e)\<close>.
\<close>

datatype pyexc =
    ValueError string
  | NotImplementedError string
  | TypeError string
  | KeyError string
  | OSError string
  | FIFOTimeoutError string
  | FIFOContextAbortedError StatusCode string
  | OtherException string
  | BaseExceptionOnly string

fun py_str :: "pyexc \<Rightarrow> string" where
  "py_str (ValueError m) = m"
| "py_str (NotImplementedError m) = m"
| "py_str (TypeError m) = m"
| "py_str (KeyError m) = m"
| "py_str (OSError m) = m"
| "py_str (FIFOTimeoutError m) = m"
| "py_str (FIFOContextAbortedError code details) =
     ''Context aborted with code: '' @ str_StatusCode code @ ''.  Message: '' @ details"
| "py_str (OtherException m) = m"
| "py_str (BaseExceptionOnly m) = m"

fun isinstance_ValueError :: "pyexc \<Rightarrow> bool" where
  "isinstance_ValueError (ValueError m) = True"
| "isinstance_ValueError e = False"

fun isinstance_NotImplementedError :: "pyexc \<Rightarrow> bool" where
  "isinstance_NotImplementedError (NotImplementedError m) = True"
| "isinstance_NotImplementedError e = False"

fun isinstance_Exception :: "pyexc \<Rightarrow> bool" where
  "isinstance_Exception (BaseExceptionOnly m) = False"
| "isinstance_Exception e = True"

text \<open>
  \<^verbatim>\<open>FIFOTimeoutError(op, timeout)\<close>: the constructor keeps nothing but the message
  it formats. The timeout is a whole number of seconds.
\<close>

definition FIFOTimeoutError_init :: "string \<Rightarrow> nat \<Rightarrow> pyexc" where
  "FIFOTimeoutError_init op timeout =
     FIFOTimeoutError (''timed out with op '' @ py_repr op @ '' after '' @ str_nat timeout @ '' seconds'')"

subsection \<open>JSON values and \<^verbatim>\<open>json.dumps\<close>\<close>

text \<open>
  What \<^verbatim>\<open>json.loads\<close> returns and \<^verbatim>\<open>json.dumps\<close> takes. A dictionary keeps its
  insertion order. Floating-point numbers are not modelled: \<open>JFloat\<close> carries the text
  that \<^verbatim>\<open>float.__repr__\<close> gives.
\<close>

datatype json =
    JNull
  | JBool bool
  | JInt int
  | JFloat string
  | JString string
  | JList "json list"
  | JDict "(string \<times> json) list"

text \<open>
  \<^verbatim>\<open>json.dumps\<close> with its defaults: \<^verbatim>\<open>ensure_ascii=True\<close> and the separators
  \<^verbatim>\<open>", "\<close> and \<^verbatim>\<open>": "\<close>.
\<close>

definition json_escape :: "char \<Rightarrow> string" where
  "json_escape c =
     (if c = CHR 0x22 then [CHR 0x5C, CHR 0x22]
      else if c = CHR 0x5C then [CHR 0x5C, CHR 0x5C]
      else if c = CHR 0x0A then [CHR 0x5C, CHR ''n'']
      else if c = CHR 0x0D then [CHR 0x5C, CHR ''r'']
      else if c = CHR 0x09 then [CHR 0x5C, CHR ''t'']
      else if c = CHR 0x08 then [CHR 0x5C, CHR ''b'']
      else if c = CHR 0x0C then [CHR 0x5C, CHR ''f'']
      else if 32 \<le> (of_char c :: nat) \<and> (of_char c :: nat) \<le> 126 then [c]
      else [CHR 0x5C, CHR ''u'', CHR ''0'', CHR ''0''] @ hex2 (of_char c))"

definition dumps_str :: "string \<Rightarrow> string" where
  "dumps_str s = [CHR 0x22] @ concat (map json_escape s) @ [CHR 0x22]"

fun join :: "string \<Rightarrow> string list \<Rightarrow> string" where
  "join sep [] = []"
| "join sep [x] = x"
| "join sep (x # y # ys) = x @ sep @ join sep (y # ys)"

fun dumps :: "json \<Rightarrow> string" where
  "dumps JNull = ''null''"
| "dumps (JBool b) = (if b then ''true'' else ''false'')"
| "dumps (JInt i) = str_int i"
| "dumps (JFloat r) = r"
| "dumps (JString s) = dumps_str s"
| "dumps (JList xs) = ''['' @ join '', '' (map dumps xs) @ '']''"
| "dumps (JDict kvs) =
     ''{'' @ join '', '' (map (\<lambda>kv. dumps_str (fst kv) @ '': '' @ dumps (snd kv)) kvs) @ ''}''"

section \<open>The endpoint registry and the dispatch core\<close>

text \<open>
  A registered implementation is whatever object the caller passed to a \<^verbatim>\<open>Register\<close>
  method. \<open>NoneObj\<close> is a falsy object (\<^verbatim>\<open>None\<close>); \<open>Callable f\<close> is a function that,
  given the request and the response, leaves the response as the first component of its
  result and either returns (\<open>None\<close>) or raises (\<open>Some e\<close>). Messages are opaque
  protocol buffers of type \<^typ>\<open>'m\<close>.
\<close>

datatype 'm handler = NoneObj | Callable "'m \<Rightarrow> 'm \<Rightarrow> 'm \<times> pyexc option"

record 'm service =
  impls :: "string \<rightharpoonup> 'm handler"

definition IMAGE_MANIPULATION :: string where "IMAGE_MANIPULATION = ''ImageManipulation''"
definition VIDEO_MANIPULATION :: string where "VIDEO_MANIPULATION = ''VideoManipulation''"
definition IMAGE_SPLICE :: string where "IMAGE_SPLICE = ''ImageSplice''"
definition IMAGE_CAMERA_MATCH :: string where "IMAGE_CAMERA_MATCH = ''ImageCameraMatch''"

definition ALLOWED_IMPLS :: "string set" where
  "ALLOWED_IMPLS = {IMAGE_MANIPULATION, VIDEO_MANIPULATION, IMAGE_SPLICE, IMAGE_CAMERA_MATCH}"

text \<open>
  Service objects live in a store, addressed by reference, so that returning
  \<^verbatim>\<open>self\<close> is returning the reference the method was called on. The store may hold
  objects of a subclass: the record is extensible.
\<close>

type_synonym ref = nat

definition RegisterImpl ::
  "ref \<Rightarrow> string \<Rightarrow> 'm handler \<Rightarrow> (ref \<Rightarrow> ('m, 'z) service_scheme)
     \<Rightarrow> (pyexc + ref) \<times> (ref \<Rightarrow> ('m, 'z) service_scheme)" where
  "RegisterImpl self type_name f h =
     (if type_name \<notin> ALLOWED_IMPLS then
        (Inl (ValueError (''unknown implementation type '' @ type_name @ '' specified'')), h)
      else if type_name \<in> dom (impls (h self)) then
        (Inl (ValueError (''implementation for '' @ type_name @ '' already present'')), h)
      else (Inr self, h(self := (h self)\<lparr>impls := (impls (h self))(type_name \<mapsto> f)\<rparr>)))"

definition RegisterImageManipulation ::
  "ref \<Rightarrow> 'm handler \<Rightarrow> (ref \<Rightarrow> ('m, 'z) service_scheme)
     \<Rightarrow> (pyexc + ref) \<times> (ref \<Rightarrow> ('m, 'z) service_scheme)" where
  "RegisterImageManipulation self f h = RegisterImpl self IMAGE_MANIPULATION f h"

definition RegisterVideoManipulation ::
  "ref \<Rightarrow> 'm handler \<Rightarrow> (ref \<Rightarrow> ('m, 'z) service_scheme)
     \<Rightarrow> (pyexc + ref) \<times> (ref \<Rightarrow> ('m, 'z) service_scheme)" where
  "RegisterVideoManipulation self f h = RegisterImpl self VIDEO_MANIPULATION f h"

definition RegisterImageSplice ::
  "ref \<Rightarrow> 'm handler \<Rightarrow> (ref \<Rightarrow> ('m, 'z) service_scheme)
     \<Rightarrow> (pyexc + ref) \<times> (ref \<Rightarrow> ('m, 'z) service_scheme)" where
  "RegisterImageSplice self f h = RegisterImpl self IMAGE_SPLICE f h"

definition RegisterImageCameraMatch ::
  "ref \<Rightarrow> 'm handler \<Rightarrow> (ref \<Rightarrow> ('m, 'z) service_scheme)
     \<Rightarrow> (pyexc + ref) \<times> (ref \<Rightarrow> ('m, 'z) service_scheme)" where
  "RegisterImageCameraMatch self f h = RegisterImpl self IMAGE_CAMERA_MATCH f h"

text \<open>
  A client that issues registration calls one after the other on the same object and
  goes on after a failed one (it catches the \<^verbatim>\<open>ValueError\<close>).
\<close>

fun register_calls ::
  "ref \<Rightarrow> (string \<times> 'm handler) list \<Rightarrow> (ref \<Rightarrow> ('m, 'z) service_scheme)
     \<Rightarrow> (ref \<Rightarrow> ('m, 'z) service_scheme)" where
  "register_calls self [] h = h"
| "register_calls self (c # cs) h = register_calls self cs (snd (RegisterImpl self (fst c) (snd c) h))"

text \<open>
  A chained call \<^verbatim>\<open>a.m(...)\<close>, where \<^verbatim>\<open>a\<close> is itself a call: the method runs on the
  object that \<^verbatim>\<open>a\<close> returned, in the store that \<^verbatim>\<open>a\<close> left; if \<^verbatim>\<open>a\<close> raised, the
  method is never called.
\<close>

definition then_call ::
  "(pyexc + ref) \<times> 's \<Rightarrow> (ref \<Rightarrow> 's \<Rightarrow> (pyexc + ref) \<times> 's) \<Rightarrow> (pyexc + ref) \<times> 's" where
  "then_call a m = (case a of (Inl e, h) \<Rightarrow> (Inl e, h) | (Inr obj, h) \<Rightarrow> m obj h)"

text \<open>
  The two abort contexts. Each \<^verbatim>\<open>abort\<close> raises: \<^verbatim>\<open>FIFOContext.abort\<close> raises the
  carrier of the code and the details, the context of the gRPC server records them on the
  call and raises a bare \<^verbatim>\<open>Exception()\<close>.
\<close>

datatype abort_context = ServicerContext | FIFOContext

fun abort :: "abort_context \<Rightarrow> StatusCode \<Rightarrow> string \<Rightarrow> pyexc" where
  "abort FIFOContext code details = FIFOContextAbortedError code details"
| "abort ServicerContext code details = OtherException []"

text \<open>
  What a call of \<^verbatim>\<open>_CallEndpoint\<close> does: what it raises or returns, the state in which
  it leaves the response object, the calls of \<^verbatim>\<open>ctx.abort\<close> it made, in order, and how
  often it called an implementation.
\<close>

record 'm dispatch =
  outcome :: "pyexc + 'm"
  resp_obj :: 'm
  aborts :: "(StatusCode \<times> string) list"
  invoked :: nat

definition aborted :: "abort_context \<Rightarrow> StatusCode \<Rightarrow> string \<Rightarrow> 'm \<Rightarrow> nat \<Rightarrow> 'm dispatch" where
  "aborted ctx code details r n =
     \<lparr>outcome = Inl (abort ctx code details), resp_obj = r, aborts = [(code, details)], invoked = n\<rparr>"

text \<open>
  \<^verbatim>\<open>_CallEndpoint\<close>. The first argument is \<^verbatim>\<open>traceback.format_exc\<close>: the text it
  renders for the exception being handled.
\<close>

definition CallEndpoint ::
  "(pyexc \<Rightarrow> string) \<Rightarrow> ('m, 'z) service_scheme \<Rightarrow> string \<Rightarrow> 'm \<Rightarrow> 'm \<Rightarrow> abort_context \<Rightarrow> 'm dispatch" where
  "CallEndpoint format_exc self ep_type req resp ctx =
     (case (case impls self ep_type of None \<Rightarrow> NoneObj | Some f \<Rightarrow> f) of
        NoneObj \<Rightarrow>
          aborted ctx UNIMPLEMENTED (''Endpoint '' @ py_repr ep_type @ '' not implemented'') resp 0
      | Callable ep_func \<Rightarrow>
          (case ep_func req resp of
             (resp', None) \<Rightarrow> \<lparr>outcome = Inr resp', resp_obj = resp', aborts = [], invoked = 1\<rparr>
           | (resp', Some e) \<Rightarrow>
               if isinstance_ValueError e then
                 aborted ctx INVALID_ARGUMENT
                   (''Endpoint '' @ py_repr ep_type @ '' invalid input: '' @ py_str e) resp' 1
               else if isinstance_NotImplementedError e then
                 aborted ctx UNIMPLEMENTED
                   (''Endpoint '' @ py_repr ep_type @ '' not implemented: '' @ py_str e) resp' 1
               else if isinstance_Exception e then
                 aborted ctx UNKNOWN
                   (''Error processing endpoint '' @ py_repr ep_type @ '': '' @ format_exc e) resp' 1
               else \<lparr>outcome = Inl e, resp_obj = resp', aborts = [], invoked = 1\<rparr>))"

section \<open>The pipe transport\<close>

datatype msgclass =
    ImageManipulationRequest | ImageManipulation
  | VideoManipulationRequest | VideoManipulation
  | ImageSpliceRequest | ImageSplice
  | ImageCameraMatchRequest | ImageCameraMatch

definition TYPES :: "string \<rightharpoonup> string \<times> msgclass \<times> msgclass" where
  "TYPES =
     [''imgmanip'' \<mapsto> (IMAGE_MANIPULATION, ImageManipulationRequest, ImageManipulation),
      ''vidmanip'' \<mapsto> (VIDEO_MANIPULATION, VideoManipulationRequest, VideoManipulation),
      ''imgsplice'' \<mapsto> (IMAGE_SPLICE, ImageSpliceRequest, ImageSplice),
      ''imgcammatch'' \<mapsto> (IMAGE_CAMERA_MATCH, ImageCameraMatchRequest, ImageCameraMatch)]"

text \<open>The two file objects of the transport, and the flag a pipe is opened with.\<close>

datatype pipe_end = Receiver | Sender

datatype open_flag = O_RDONLY | O_WRONLY

text \<open>
  The libraries and the operating system, as far as the transport calls them:
  \<^verbatim>\<open>traceback.format_exc\<close>, \<^verbatim>\<open>json.loads\<close>, \<^verbatim>\<open>json_format.ParseDict\<close> (the
  message it has filled in, or the exception it raises), \<^verbatim>\<open>json_format.MessageToDict\<close>,
  the constructors of the message classes, \<^verbatim>\<open>os.open\<close> (the exception it raises, if
  any) and \<^verbatim>\<open>select.select\<close> (the three lists it returns for the three lists and the
  optional timeout it is given). A call of \<^verbatim>\<open>os.open\<close> or of \<^verbatim>\<open>select.select\<close> that waits
  is taken to return in the end; what it returns is left open.
\<close>

record 'm env =
  format_exc :: "pyexc \<Rightarrow> string"
  json_loads :: "string \<Rightarrow> pyexc + json"
  ParseDict :: "json \<Rightarrow> 'm \<Rightarrow> pyexc + 'm"
  MessageToDict :: "'m \<Rightarrow> json"
  new_message :: "msgclass \<Rightarrow> 'm"
  os_open :: "string \<Rightarrow> open_flag \<Rightarrow> pyexc option"
  select ::
    "pipe_end list \<Rightarrow> pipe_end list \<Rightarrow> pipe_end list \<Rightarrow> nat option
       \<Rightarrow> pipe_end list \<times> pipe_end list \<times> pipe_end list"

text \<open>
  What the transport does to its lock, to its pipes and to the implementations, in the
  order in which it does it.
\<close>

datatype event =
    LockAcquire | LockRelease
  | Open pipe_end | Select pipe_end | ReadLine | Write | Flush | Close pipe_end
  | HandlerCall

text \<open>A text file object: whether it has been closed, and what is written but not flushed.\<close>

record textfile =
  closed :: bool
  buf :: string

text \<open>
  An \<^verbatim>\<open>AnalyticServiceFIFO\<close> object, together with the two pipes it is connected to
  (\<open>inbound\<close>: the characters the peer has written and the service has not read yet,
  followed by the end of the file; \<open>outbound\<close>: the characters that have reached the
  pipe) and the history of events.
\<close>

record 'm fifo = "'m service" +
  infile :: "string option"
  outfile :: "string option"
  receiver :: "textfile option"
  sender :: "textfile option"
  inbound :: string
  outbound :: string
  trace :: "event list"

definition open_path :: "'m env \<Rightarrow> string option \<Rightarrow> open_flag \<Rightarrow> pyexc option" where
  "open_path E path flag =
     (case path of
        None \<Rightarrow> Some (TypeError ''open: path should be string, bytes or os.PathLike, not NoneType'')
      | Some p \<Rightarrow> os_open E p flag)"

definition ensureOpen :: "'m env \<Rightarrow> 'm fifo \<Rightarrow> (pyexc + unit) \<times> 'm fifo" where
  "ensureOpen E s =
     (case (if receiver s = None then
              (case open_path E (infile s) O_RDONLY of
                 Some e \<Rightarrow> (Inl e, s)
               | None \<Rightarrow>
                   (Inr (), s\<lparr>receiver := Some \<lparr>closed = False, buf = []\<rparr>,
                              trace := trace s @ [Open Receiver]\<rparr>))
            else (Inr (), s)) of
        (Inl e, s1) \<Rightarrow> (Inl e, s1)
      | (Inr u, s1) \<Rightarrow>
          (if sender s1 = None then
             (case open_path E (outfile s1) O_WRONLY of
                Some e \<Rightarrow> (Inl e, s1)
              | None \<Rightarrow>
                  (Inr (), s1\<lparr>sender := Some \<lparr>closed = False, buf = []\<rparr>,
                              trace := trace s1 @ [Open Sender]\<rparr>))
           else (Inr (), s1)))"

text \<open>
  \<^verbatim>\<open>with self.lock\<close>: the lock is taken on entry and given back on every exit, also
  when the body raises.
\<close>

definition acquire :: "'m fifo \<Rightarrow> 'm fifo" where
  "acquire s = s\<lparr>trace := trace s @ [LockAcquire]\<rparr>"

definition release :: "'m fifo \<Rightarrow> 'm fifo" where
  "release s = s\<lparr>trace := trace s @ [LockRelease]\<rparr>"

definition close_locked :: "'m fifo \<Rightarrow> 'm fifo" where
  "close_locked s =
     (let s1 = (case receiver s of
                  None \<Rightarrow> s
                | Some f \<Rightarrow> s\<lparr>receiver := Some (f\<lparr>closed := True\<rparr>),
                              trace := trace s @ [Close Receiver]\<rparr>)
      in case sender s1 of
           None \<Rightarrow> s1
         | Some f \<Rightarrow> s1\<lparr>sender := Some (f\<lparr>closed := True, buf := []\<rparr>),
                        outbound := outbound s1 @ (if closed f then [] else buf f),
                        trace := trace s1 @ [Close Sender]\<rparr>)"

definition close :: "'m fifo \<Rightarrow> 'm fifo" where
  "close s = release (close_locked (acquire s))"

text \<open>\<^verbatim>\<open>any\<close> of the three lists that \<^verbatim>\<open>select.select\<close> returns.\<close>

definition py_any :: "pipe_end list \<times> pipe_end list \<times> pipe_end list \<Rightarrow> bool" where
  "py_any r = (case r of (rl, wl, xl) \<Rightarrow> rl \<noteq> [] \<or> wl \<noteq> [] \<or> xl \<noteq> [])"

text \<open>The timeout is appended to the arguments of \<^verbatim>\<open>select.select\<close> only if it is truthy.\<close>

definition selArgs_timeout :: "nat \<Rightarrow> nat option" where
  "selArgs_timeout timeout = (if timeout \<noteq> 0 then Some timeout else None)"

definition send :: "'m env \<Rightarrow> string \<Rightarrow> nat \<Rightarrow> 'm fifo \<Rightarrow> (pyexc + unit) \<times> 'm fifo" where
  "send E data timeout s =
     (case ensureOpen E s of
        (Inl e, s1) \<Rightarrow> (Inl e, s1)
      | (Inr u, s1) \<Rightarrow>
          (case sender s1 of
             None \<Rightarrow> (Inl (TypeError ''argument must be an int, or have a fileno() method''), s1)
           | Some f \<Rightarrow>
               if closed f then (Inl (ValueError ''I/O operation on closed file''), s1)
               else
                 let s2 = s1\<lparr>trace := trace s1 @ [Select Sender]\<rparr> in
                 if \<not> py_any (select E [] [Sender] [Sender] (selArgs_timeout timeout)) then
                   (Inl (FIFOTimeoutError_init ''write'' timeout), s2)
                 else
                   let f1 = f\<lparr>buf := buf f @ data @ ''\<newline>''\<rparr> in
                   (Inr (), s2\<lparr>sender := Some (f1\<lparr>buf := []\<rparr>),
                               outbound := outbound s2 @ buf f1,
                               trace := trace s2 @ [Write, Flush]\<rparr>)))"

text \<open>
  \<^verbatim>\<open>readline\<close>: the characters up to and including the first line terminator, or all
  that is left when the end of the file comes first; and what stays in the pipe.
\<close>

definition readline :: "string \<Rightarrow> string \<times> string" where
  "readline d =
     (case dropWhile (\<lambda>c. c \<noteq> CHR 0x0A) d of
        [] \<Rightarrow> (d, [])
      | c # rest \<Rightarrow> (takeWhile (\<lambda>c. c \<noteq> CHR 0x0A) d @ [c], rest))"

definition receive :: "'m env \<Rightarrow> nat \<Rightarrow> 'm fifo \<Rightarrow> (pyexc + string) \<times> 'm fifo" where
  "receive E timeout s =
     (case ensureOpen E s of
        (Inl e, s1) \<Rightarrow> (Inl e, s1)
      | (Inr u, s1) \<Rightarrow>
          (case receiver s1 of
             None \<Rightarrow> (Inl (TypeError ''argument must be an int, or have a fileno() method''), s1)
           | Some f \<Rightarrow>
               if closed f then (Inl (ValueError ''I/O operation on closed file''), s1)
               else
                 let s2 = s1\<lparr>trace := trace s1 @ [Select Receiver]\<rparr> in
                 if \<not> py_any (select E [Receiver] [] [Receiver] (selArgs_timeout timeout)) then
                   (Inl (FIFOTimeoutError_init ''read'' timeout), s2)
                 else
                   (Inr (fst (readline (inbound s2))),
                    s2\<lparr>inbound := snd (readline (inbound s2)), trace := trace s2 @ [ReadLine]\<rparr>)))"

text \<open>
  The operators that \<^verbatim>\<open>serveOnce\<close> applies to the decoded message, which may be any
  JSON value: \<^verbatim>\<open>"type" in msg\<close>, \<^verbatim>\<open>msg[key]\<close> and \<^verbatim>\<open>self.TYPES[code]\<close>. The keys of
  a decoded dictionary are distinct.
\<close>

fun py_type_name :: "json \<Rightarrow> string" where
  "py_type_name JNull = ''NoneType''"
| "py_type_name (JBool b) = ''bool''"
| "py_type_name (JInt i) = ''int''"
| "py_type_name (JFloat r) = ''float''"
| "py_type_name (JString t) = ''str''"
| "py_type_name (JList xs) = ''list''"
| "py_type_name (JDict kvs) = ''dict''"

fun py_in :: "string \<Rightarrow> json \<Rightarrow> pyexc + bool" where
  "py_in k (JDict kvs) = Inr (k \<in> fst ` set kvs)"
| "py_in k (JList xs) = Inr (JString k \<in> set xs)"
| "py_in k (JString t) = Inr (sublist k t)"
| "py_in k j = Inl (TypeError (''argument of type '' @ py_repr (py_type_name j) @ '' is not iterable''))"

fun py_getitem :: "json \<Rightarrow> string \<Rightarrow> pyexc + json" where
  "py_getitem (JDict kvs) k =
     (case map_of kvs k of None \<Rightarrow> Inl (KeyError (py_repr k)) | Some v \<Rightarrow> Inr v)"
| "py_getitem (JList xs) k = Inl (TypeError ''list indices must be integers or slices, not str'')"
| "py_getitem (JString t) k = Inl (TypeError ''string indices must be integers'')"
| "py_getitem j k = Inl (TypeError (py_repr (py_type_name j) @ '' object is not subscriptable''))"

fun repr_key :: "json \<Rightarrow> string" where
  "repr_key JNull = ''None''"
| "repr_key (JBool b) = (if b then ''True'' else ''False'')"
| "repr_key (JInt i) = str_int i"
| "repr_key (JFloat r) = r"
| "repr_key (JString t) = py_repr t"
| "repr_key j = py_type_name j"

fun TYPES_getitem :: "json \<Rightarrow> pyexc + string \<times> msgclass \<times> msgclass" where
  "TYPES_getitem (JString k) =
     (case TYPES k of None \<Rightarrow> Inl (KeyError (py_repr k)) | Some t \<Rightarrow> Inr t)"
| "TYPES_getitem (JList xs) = Inl (TypeError (''unhashable type: '' @ py_repr ''list''))"
| "TYPES_getitem (JDict kvs) = Inl (TypeError (''unhashable type: '' @ py_repr ''dict''))"
| "TYPES_getitem j = Inl (KeyError (repr_key j))"

text \<open>
  The statements of \<^verbatim>\<open>serveOnce\<close> between \<^verbatim>\<open>receive\<close> and the \<^verbatim>\<open>try\<close> block (lines
  249 to 255): from the line to the endpoint type, the request filled in from the
  \<^verbatim>\<open>value\<close> field and the empty response, or to the exception that one of them raises.
\<close>

definition decode :: "'m env \<Rightarrow> string \<Rightarrow> pyexc + string \<times> 'm \<times> 'm" where
  "decode E line =
     (case json_loads E line of
        Inl e \<Rightarrow> Inl e
      | Inr msg \<Rightarrow>
          (case py_in ''type'' msg of
             Inl e \<Rightarrow> Inl e
           | Inr present \<Rightarrow>
               if \<not> present then Inl (ValueError ''Message had no 'type' field'')
               else
                 (case py_getitem msg ''type'' of
                    Inl e \<Rightarrow> Inl e
                  | Inr code \<Rightarrow>
                      (case TYPES_getitem code of
                         Inl e \<Rightarrow> Inl e
                       | Inr (callType, makeReq, makeResp) \<Rightarrow>
                           let req = new_message E makeReq; resp = new_message E makeResp in
                           (case py_getitem msg ''value'' of
                              Inl e \<Rightarrow> Inl e
                            | Inr v \<Rightarrow>
                                (case ParseDict E v req of
                                   Inl e \<Rightarrow> Inl e
                                 | Inr req' \<Rightarrow> Inr (callType, req', resp)))))))"

text \<open>The two wire messages that \<^verbatim>\<open>serveOnce\<close> sends.\<close>

definition ok_message :: "json \<Rightarrow> string" where
  "ok_message v = dumps (JDict [(''code'', JString ''OK''), (''value'', v)])"

definition abort_message :: "StatusCode \<Rightarrow> string \<Rightarrow> string" where
  "abort_message code details =
     dumps (JDict [(''code'', JString (str_StatusCode code)), (''value'', JString details)])"

text \<open>
  The \<^verbatim>\<open>try\<close> statement of \<^verbatim>\<open>serveOnce\<close>: its body calls the endpoint and sends the
  answer; its only handler catches \<^verbatim>\<open>FIFOContextAbortedError\<close>, whatever statement of
  the body raised it.
\<close>

definition try_dispatch ::
  "'m env \<Rightarrow> string \<Rightarrow> 'm \<Rightarrow> 'm \<Rightarrow> 'm fifo \<Rightarrow> (pyexc + unit) \<times> 'm fifo" where
  "try_dispatch E callType req resp s =
     (let d = CallEndpoint (format_exc E) s callType req resp FIFOContext;
          s1 = s\<lparr>trace := trace s @ replicate (invoked d) HandlerCall\<rparr>;
          body = (case outcome d of
                    Inl e \<Rightarrow> (Inl e, s1)
                  | Inr resp' \<Rightarrow> send E (ok_message (MessageToDict E resp')) 0 s1)
      in case body of
           (Inl (FIFOContextAbortedError code details), s2) \<Rightarrow> send E (abort_message code details) 0 s2
         | (r, s2) \<Rightarrow> (r, s2))"

text \<open>\<^verbatim>\<open>serveOnce\<close>: what runs inside \<^verbatim>\<open>with self.lock\<close>, and the whole step.\<close>

definition serveOnce_locked :: "'m env \<Rightarrow> 'm fifo \<Rightarrow> (pyexc + unit) \<times> 'm fifo" where
  "serveOnce_locked E s =
     (case receive E 0 s of
        (Inl e, s1) \<Rightarrow> (Inl e, s1)
      | (Inr line, s1) \<Rightarrow>
          (case decode E line of
             Inl e \<Rightarrow> (Inl e, s1)
           | Inr (callType, req, resp) \<Rightarrow> try_dispatch E callType req resp s1))"

definition serveOnce :: "'m env \<Rightarrow> 'm fifo \<Rightarrow> (pyexc + unit) \<times> 'm fifo" where
  "serveOnce E s = (case serveOnce_locked E (acquire s) of (r, s') \<Rightarrow> (r, release s'))"


section \<open>Example objects\<close>

text \<open>
  Concrete implementations, services and environments, on which the theorems below are
  instantiated. A message is represented by the dictionary of its fields.
\<close>

definition example_format_exc :: "pyexc \<Rightarrow> string" where
  "example_format_exc e = ''Traceback (most recent call last):\<newline>'' @ py_str e @ ''\<newline>''"

definition score_handler :: "json handler" where
  "score_handler = Callable (\<lambda>req resp. (JDict [(''score'', JFloat ''0.5'')], None))"

definition bad_crop_handler :: "json handler" where
  "bad_crop_handler = Callable (\<lambda>req resp. (resp, Some (ValueError ''bad crop'')))"

definition unsupported_handler :: "json handler" where
  "unsupported_handler = Callable (\<lambda>req resp. (resp, Some (NotImplementedError ''no video'')))"

definition crashing_handler :: "json handler" where
  "crashing_handler =
     Callable (\<lambda>req resp. (JDict [(''score'', JFloat ''0.25'')], Some (OtherException ''division by zero'')))"

definition empty_store :: "ref \<Rightarrow> json service" where
  "empty_store = (\<lambda>r. \<lparr>impls = Map.empty\<rparr>)"

definition example_service :: "json service" where
  "example_service =
     \<lparr>impls = [IMAGE_MANIPULATION \<mapsto> bad_crop_handler, VIDEO_MANIPULATION \<mapsto> unsupported_handler,
                IMAGE_SPLICE \<mapsto> crashing_handler]\<rparr>"

definition scoring_service :: "json service" where
  "scoring_service = \<lparr>impls = [IMAGE_MANIPULATION \<mapsto> score_handler]\<rparr>"

text \<open>
  An environment in which every pipe can be opened and is ready at once, and one in which a
  wait with a timeout always expires. The JSON documents that the example parser knows:
\<close>

definition example_documents :: "(string \<times> json) list" where
  \<open>example_documents =
     [(''{"type": "imgmanip", "value": {}}\<newline>'',
         JDict [(''type'', JString ''imgmanip''), (''value'', JDict [])]),
      (''{"type": "imgcammatch", "value": {}}\<newline>'',
         JDict [(''type'', JString ''imgcammatch''), (''value'', JDict [])]),
      (''{"type": "audio", "value": {}}\<newline>'',
         JDict [(''type'', JString ''audio''), (''value'', JDict [])]),
      (''{}\<newline>'', JDict [])]\<close>

definition example_env :: "json env" where
  "example_env =
     \<lparr>format_exc = example_format_exc,
      json_loads = (\<lambda>line. case map_of example_documents line of
                      None \<Rightarrow> Inl (ValueError ''Expecting value: line 1 column 1 (char 0)'')
                    | Some j \<Rightarrow> Inr j),
      ParseDict = (\<lambda>v req. case v of JDict kvs \<Rightarrow> Inr (JDict kvs)
                    | _ \<Rightarrow> Inl (OtherException ''Failed to parse'')),
      MessageToDict = (\<lambda>m. m),
      new_message = (\<lambda>cls. JDict []),
      os_open = (\<lambda>path flag. None),
      select = (\<lambda>rl wl xl timeout. (rl, wl, []))\<rparr>"


definition example_fifo :: "json fifo" where
  \<open>example_fifo =
     \<lparr>impls = impls example_service,
      infile = Some ''/tmp/analytic_in'', outfile = Some ''/tmp/analytic_out'',
      receiver = None, sender = None,
      inbound = ''{"type": "imgmanip", "value": {}}\<newline>'',
      outbound = [], trace = []\<rparr>\<close>






text \<open>
  Two conditions on the state of the transport: nothing written is waiting to be flushed;
  and the file object for the outbound pipe has not been closed and \<^verbatim>\<open>select.select\<close>,
  called without a timeout, reports it ready.
\<close>

definition flushed :: "'m fifo \<Rightarrow> bool" where
  "flushed s = (case sender s of None \<Rightarrow> True | Some f \<Rightarrow> buf f = [])"

definition can_send :: "'m env \<Rightarrow> 'm fifo \<Rightarrow> bool" where
  "can_send E s =
     ((case sender s of None \<Rightarrow> True | Some f \<Rightarrow> \<not> closed f)
      \<and> py_any (select E [] [Sender] [Sender] None))"

text \<open>
  A JSON value whose floating-point texts hold no line terminator, as every text that
  \<^verbatim>\<open>float.__repr__\<close> produces.
\<close>

fun no_line_break :: "json \<Rightarrow> bool" where
  "no_line_break (JFloat r) = (CHR 0x0A \<notin> set r)"
| "no_line_break (JList xs) = (\<forall>x \<in> set xs. no_line_break x)"
| "no_line_break (JDict kvs) = (\<forall>kv \<in> set kvs. no_line_break (snd kv))"
| "no_line_break j = True"

section \<open>The registry\<close>

lemma RegisterImpl_keeps:
  "impls (h self) t = Some g \<Longrightarrow> impls (snd (RegisterImpl self ty f h) self) t = Some g"
  by (auto simp: RegisterImpl_def)

lemma register_calls_keeps:
  "impls (h self) t = Some g \<Longrightarrow> impls (register_calls self cs h self) t = Some g"
proof (induction cs arbitrary: h)
  case Nil
  then show ?case by simp
next
  case (Cons c cs)
  then show ?case using RegisterImpl_keeps [of h self t g "fst c" "snd c"] by simp
qed

text \<open>
  Claim C2. \<^verbatim>\<open>_RegisterImpl\<close> raises the unknown-type \<^verbatim>\<open>ValueError\<close> for every type name
  outside the four allowed ones, and the already-present \<^verbatim>\<open>ValueError\<close> for every type
  name that has an entry (the registry holds allowed names only, which every registration
  preserves); in both cases the store of service objects is left as it was. Otherwise it
  stores the implementation under the name. No sequence of later registration calls on the
  object replaces or removes an entry that is there.
\<close>

theorem RegisterImpl_registry:
  "(t \<notin> ALLOWED_IMPLS \<longrightarrow>
      RegisterImpl self t f h =
        (Inl (ValueError (''unknown implementation type '' @ t @ '' specified'')), h))
   \<and> (dom (impls (h self)) \<subseteq> ALLOWED_IMPLS \<and> t \<in> dom (impls (h self)) \<longrightarrow>
      RegisterImpl self t f h =
        (Inl (ValueError (''implementation for '' @ t @ '' already present'')), h))
   \<and> (t \<in> ALLOWED_IMPLS \<and> t \<notin> dom (impls (h self)) \<longrightarrow>
      RegisterImpl self t f h =
        (Inr self, h(self := (h self)\<lparr>impls := (impls (h self))(t \<mapsto> f)\<rparr>)))
   \<and> (dom (impls (h self)) \<subseteq> ALLOWED_IMPLS \<longrightarrow>
      dom (impls (snd (RegisterImpl self t f h) self)) \<subseteq> ALLOWED_IMPLS)
   \<and> (\<forall>t' g. impls (h self) t' = Some g \<longrightarrow> impls (register_calls self cs h self) t' = Some g)"
proof (intro conjI)
  show "t \<notin> ALLOWED_IMPLS \<longrightarrow>
      RegisterImpl self t f h =
        (Inl (ValueError (''unknown implementation type '' @ t @ '' specified'')), h)"
    by (simp add: RegisterImpl_def)
  show "dom (impls (h self)) \<subseteq> ALLOWED_IMPLS \<and> t \<in> dom (impls (h self)) \<longrightarrow>
      RegisterImpl self t f h =
        (Inl (ValueError (''implementation for '' @ t @ '' already present'')), h)"
    unfolding RegisterImpl_def by auto
  show "t \<in> ALLOWED_IMPLS \<and> t \<notin> dom (impls (h self)) \<longrightarrow>
      RegisterImpl self t f h =
        (Inr self, h(self := (h self)\<lparr>impls := (impls (h self))(t \<mapsto> f)\<rparr>))"
    by (simp add: RegisterImpl_def)
  show "dom (impls (h self)) \<subseteq> ALLOWED_IMPLS \<longrightarrow>
      dom (impls (snd (RegisterImpl self t f h) self)) \<subseteq> ALLOWED_IMPLS"
    unfolding RegisterImpl_def by auto
  show "\<forall>t' g. impls (h self) t' = Some g \<longrightarrow> impls (register_calls self cs h self) t' = Some g"
    using register_calls_keeps [of h self] by blast
qed



lemma ALLOWED_IMPLS_eval:
  "ALLOWED_IMPLS = {''ImageManipulation'', ''VideoManipulation'', ''ImageSplice'', ''ImageCameraMatch''}"
  by (simp add: ALLOWED_IMPLS_def IMAGE_MANIPULATION_def VIDEO_MANIPULATION_def IMAGE_SPLICE_def
      IMAGE_CAMERA_MATCH_def)

theorem RegisterImpl_registry_witness:
  "fst (RegisterImpl 0 ''Bogus'' score_handler empty_store)
     = Inl (ValueError ''unknown implementation type Bogus specified'')
   \<and> fst (RegisterImpl 0 IMAGE_SPLICE score_handler (\<lambda>r. example_service))
     = Inl (ValueError ''implementation for ImageSplice already present'')
   \<and> fst (RegisterImpl 0 IMAGE_CAMERA_MATCH score_handler (\<lambda>r. example_service)) = Inr 0
   \<and> impls (register_calls 0 [(IMAGE_SPLICE, score_handler), (''Bogus'', NoneObj),
        (IMAGE_CAMERA_MATCH, score_handler)] (\<lambda>r. example_service) 0) IMAGE_SPLICE = Some crashing_handler"
proof -
  have dom_ex: "dom (impls example_service) \<subseteq> ALLOWED_IMPLS"
    by (simp add: example_service_def ALLOWED_IMPLS_def)
  have in_dom: "IMAGE_SPLICE \<in> dom (impls example_service)"
    by (simp add: example_service_def)
  have not_dom: "IMAGE_CAMERA_MATCH \<notin> dom (impls example_service)"
    by (simp add: example_service_def IMAGE_MANIPULATION_def VIDEO_MANIPULATION_def IMAGE_SPLICE_def
      IMAGE_CAMERA_MATCH_def)
  have at: "impls example_service IMAGE_SPLICE = Some crashing_handler"
    by (simp add: example_service_def)
  have bogus: "''Bogus'' \<notin> ALLOWED_IMPLS"
    by (simp add: ALLOWED_IMPLS_eval)
  have cam: "IMAGE_CAMERA_MATCH \<in> ALLOWED_IMPLS"
    by (simp add: ALLOWED_IMPLS_def)
  note bogus_call = RegisterImpl_registry [where t = "''Bogus''" and self = 0 and f = score_handler
      and h = empty_store and cs = "[]"]
  note splice_call = RegisterImpl_registry [where t = IMAGE_SPLICE and self = 0 and f = score_handler
      and h = "\<lambda>r. example_service"
      and cs = "[(IMAGE_SPLICE, score_handler), (''Bogus'', NoneObj), (IMAGE_CAMERA_MATCH, score_handler)]"]
  note camera_call = RegisterImpl_registry [where t = IMAGE_CAMERA_MATCH and self = 0
      and f = score_handler and h = "\<lambda>r. example_service" and cs = "[]"]
  have c1: "RegisterImpl 0 ''Bogus'' score_handler empty_store =
      (Inl (ValueError (''unknown implementation type '' @ ''Bogus'' @ '' specified'')), empty_store)"
    using bogus_call bogus by blast
  have c2: "RegisterImpl 0 IMAGE_SPLICE score_handler (\<lambda>r. example_service) =
      (Inl (ValueError (''implementation for '' @ IMAGE_SPLICE @ '' already present'')),
       \<lambda>r. example_service)"
    using splice_call dom_ex in_dom by blast
  have c3: "fst (RegisterImpl 0 IMAGE_CAMERA_MATCH score_handler (\<lambda>r. example_service)) = Inr 0"
    using camera_call cam not_dom by simp
  have c4: "impls (register_calls 0 [(IMAGE_SPLICE, score_handler), (''Bogus'', NoneObj),
        (IMAGE_CAMERA_MATCH, score_handler)] (\<lambda>r. example_service) 0) IMAGE_SPLICE
      = Some crashing_handler"
    using splice_call at by blast
  show ?thesis
    unfolding c1 c2 c3 c4 by (simp add: IMAGE_SPLICE_def)
qed

lemma RegisterImpl_Inr:
  assumes "RegisterImpl self t f h = (Inr r, h')"
  shows "r = self \<and> impls (h' r) t = Some f"
proof -
  define H where "H = h(self := (h self)\<lparr>impls := (impls (h self))(t \<mapsto> f)\<rparr>)"
  have ok: "t \<in> ALLOWED_IMPLS" "t \<notin> dom (impls (h self))"
    using assms by (simp_all add: RegisterImpl_def split: if_split_asm)
  then have "RegisterImpl self t f h = (Inr self, H)"
    by (simp add: RegisterImpl_def H_def)
  with assms have "(Inr r, h') = (Inr self, H)" by simp
  then have "r = self" and "h' = H" by simp_all
  then show ?thesis by (simp add: H_def)
qed

lemma RegisterImpl_fresh:
  assumes "t \<in> ALLOWED_IMPLS" and "t \<notin> dom (impls (h self))"
  shows "RegisterImpl self t f h =
    (Inr self, h(self := (h self)\<lparr>impls := (impls (h self))(t \<mapsto> f)\<rparr>))"
  using assms by (simp add: RegisterImpl_def)

lemma ALLOWED_IMPLS_members:
  "IMAGE_MANIPULATION \<in> ALLOWED_IMPLS" "VIDEO_MANIPULATION \<in> ALLOWED_IMPLS"
  "IMAGE_SPLICE \<in> ALLOWED_IMPLS" "IMAGE_CAMERA_MATCH \<in> ALLOWED_IMPLS"
  by (simp_all add: ALLOWED_IMPLS_def)

text \<open>
  Claim C10. A registration call for an endpoint type that has no entry yet succeeds,
  through \<^verbatim>\<open>_RegisterImpl\<close> and through each of the four public methods, and returns the
  reference it was called on, with the implementation stored in the object behind it;
  so the next call of a chain runs on the same object. No registration call returns
  anything but the reference it was called on.
\<close>

theorem Register_returns_self:
  "(t \<in> ALLOWED_IMPLS \<and> t \<notin> dom (impls (h self)) \<longrightarrow>
      RegisterImpl self t f h =
        (Inr self, h(self := (h self)\<lparr>impls := (impls (h self))(t \<mapsto> f)\<rparr>))
      \<and> then_call (RegisterImpl self t f h) m =
          m self (h(self := (h self)\<lparr>impls := (impls (h self))(t \<mapsto> f)\<rparr>)))
   \<and> (IMAGE_MANIPULATION \<notin> dom (impls (h self)) \<longrightarrow>
      RegisterImageManipulation self f h =
        (Inr self, h(self := (h self)\<lparr>impls := (impls (h self))(IMAGE_MANIPULATION \<mapsto> f)\<rparr>)))
   \<and> (VIDEO_MANIPULATION \<notin> dom (impls (h self)) \<longrightarrow>
      RegisterVideoManipulation self f h =
        (Inr self, h(self := (h self)\<lparr>impls := (impls (h self))(VIDEO_MANIPULATION \<mapsto> f)\<rparr>)))
   \<and> (IMAGE_SPLICE \<notin> dom (impls (h self)) \<longrightarrow>
      RegisterImageSplice self f h =
        (Inr self, h(self := (h self)\<lparr>impls := (impls (h self))(IMAGE_SPLICE \<mapsto> f)\<rparr>)))
   \<and> (IMAGE_CAMERA_MATCH \<notin> dom (impls (h self)) \<longrightarrow>
      RegisterImageCameraMatch self f h =
        (Inr self, h(self := (h self)\<lparr>impls := (impls (h self))(IMAGE_CAMERA_MATCH \<mapsto> f)\<rparr>)))
   \<and> (RegisterImpl self t f h = (Inr r, h') \<longrightarrow> r = self \<and> impls (h' r) t = Some f)
   \<and> (RegisterImageManipulation self f h = (Inr r, h') \<longrightarrow> r = self \<and> impls (h' r) IMAGE_MANIPULATION = Some f)
   \<and> (RegisterVideoManipulation self f h = (Inr r, h') \<longrightarrow> r = self \<and> impls (h' r) VIDEO_MANIPULATION = Some f)
   \<and> (RegisterImageSplice self f h = (Inr r, h') \<longrightarrow> r = self \<and> impls (h' r) IMAGE_SPLICE = Some f)
   \<and> (RegisterImageCameraMatch self f h = (Inr r, h') \<longrightarrow> r = self \<and> impls (h' r) IMAGE_CAMERA_MATCH = Some f)"
proof (intro conjI impI)
  assume a: "t \<in> ALLOWED_IMPLS \<and> t \<notin> dom (impls (h self))"
  then show eq: "RegisterImpl self t f h =
        (Inr self, h(self := (h self)\<lparr>impls := (impls (h self))(t \<mapsto> f)\<rparr>))"
    using RegisterImpl_fresh by blast
  show "then_call (RegisterImpl self t f h) m =
          m self (h(self := (h self)\<lparr>impls := (impls (h self))(t \<mapsto> f)\<rparr>))"
    unfolding eq by (simp add: then_call_def)
next
  assume "IMAGE_MANIPULATION \<notin> dom (impls (h self))"
  then show "RegisterImageManipulation self f h =
        (Inr self, h(self := (h self)\<lparr>impls := (impls (h self))(IMAGE_MANIPULATION \<mapsto> f)\<rparr>))"
    unfolding RegisterImageManipulation_def
    by (rule RegisterImpl_fresh [OF ALLOWED_IMPLS_members(1)])
next
  assume "VIDEO_MANIPULATION \<notin> dom (impls (h self))"
  then show "RegisterVideoManipulation self f h =
        (Inr self, h(self := (h self)\<lparr>impls := (impls (h self))(VIDEO_MANIPULATION \<mapsto> f)\<rparr>))"
    unfolding RegisterVideoManipulation_def
    by (rule RegisterImpl_fresh [OF ALLOWED_IMPLS_members(2)])
next
  assume "IMAGE_SPLICE \<notin> dom (impls (h self))"
  then show "RegisterImageSplice self f h =
        (Inr self, h(self := (h self)\<lparr>impls := (impls (h self))(IMAGE_SPLICE \<mapsto> f)\<rparr>))"
    unfolding RegisterImageSplice_def
    by (rule RegisterImpl_fresh [OF ALLOWED_IMPLS_members(3)])
next
  assume "IMAGE_CAMERA_MATCH \<notin> dom (impls (h self))"
  then show "RegisterImageCameraMatch self f h =
        (Inr self, h(self := (h self)\<lparr>impls := (impls (h self))(IMAGE_CAMERA_MATCH \<mapsto> f)\<rparr>))"
    unfolding RegisterImageCameraMatch_def
    by (rule RegisterImpl_fresh [OF ALLOWED_IMPLS_members(4)])
next
  assume a: "RegisterImpl self t f h = (Inr r, h')"
  from RegisterImpl_Inr [OF a] show "r = self" "impls (h' r) t = Some f" by blast+
next
  assume a: "RegisterImageManipulation self f h = (Inr r, h')"
  from RegisterImpl_Inr [OF a [unfolded RegisterImageManipulation_def]]
  show "r = self" "impls (h' r) IMAGE_MANIPULATION = Some f" by blast+
next
  assume a: "RegisterVideoManipulation self f h = (Inr r, h')"
  from RegisterImpl_Inr [OF a [unfolded RegisterVideoManipulation_def]]
  show "r = self" "impls (h' r) VIDEO_MANIPULATION = Some f" by blast+
next
  assume a: "RegisterImageSplice self f h = (Inr r, h')"
  from RegisterImpl_Inr [OF a [unfolded RegisterImageSplice_def]]
  show "r = self" "impls (h' r) IMAGE_SPLICE = Some f" by blast+
next
  assume a: "RegisterImageCameraMatch self f h = (Inr r, h')"
  from RegisterImpl_Inr [OF a [unfolded RegisterImageCameraMatch_def]]
  show "r = self" "impls (h' r) IMAGE_CAMERA_MATCH = Some f" by blast+
qed

lemma endpoint_names_distinct:
  "IMAGE_MANIPULATION \<noteq> VIDEO_MANIPULATION" "IMAGE_MANIPULATION \<noteq> IMAGE_SPLICE"
  "IMAGE_MANIPULATION \<noteq> IMAGE_CAMERA_MATCH" "VIDEO_MANIPULATION \<noteq> IMAGE_SPLICE"
  "VIDEO_MANIPULATION \<noteq> IMAGE_CAMERA_MATCH" "IMAGE_SPLICE \<noteq> IMAGE_CAMERA_MATCH"
  by (simp_all add: IMAGE_MANIPULATION_def VIDEO_MANIPULATION_def IMAGE_SPLICE_def
      IMAGE_CAMERA_MATCH_def)

text \<open>
  The chain
  \<^verbatim>\<open>svc.RegisterImageManipulation(a).RegisterVideoManipulation(b).RegisterImageSplice(c).RegisterImageCameraMatch(d)\<close>
  on a fresh service: every call returns the service, which holds the four implementations
  in the end.
\<close>

theorem Register_returns_self_witness:
  "RegisterImpl 0 IMAGE_SPLICE crashing_handler empty_store
     = (Inr 0, empty_store(0 := \<lparr>impls = [IMAGE_SPLICE \<mapsto> crashing_handler]\<rparr>))
   \<and> RegisterImageManipulation 0 score_handler empty_store
     = (Inr 0, empty_store(0 := \<lparr>impls = [IMAGE_MANIPULATION \<mapsto> score_handler]\<rparr>))
   \<and> fst (then_call (RegisterImageManipulation 0 score_handler empty_store)
        (\<lambda>r. RegisterVideoManipulation r unsupported_handler)) = Inr 0
   \<and> fst (then_call (then_call (RegisterImageManipulation 0 score_handler empty_store)
        (\<lambda>r. RegisterVideoManipulation r unsupported_handler))
        (\<lambda>r. RegisterImageSplice r crashing_handler)) = Inr 0
   \<and> then_call (then_call (then_call (RegisterImageManipulation 0 score_handler empty_store)
        (\<lambda>r. RegisterVideoManipulation r unsupported_handler))
        (\<lambda>r. RegisterImageSplice r crashing_handler))
        (\<lambda>r. RegisterImageCameraMatch r bad_crop_handler)
     = (Inr 0, empty_store(0 := \<lparr>impls =
          [IMAGE_MANIPULATION \<mapsto> score_handler, VIDEO_MANIPULATION \<mapsto> unsupported_handler,
           IMAGE_SPLICE \<mapsto> crashing_handler, IMAGE_CAMERA_MATCH \<mapsto> bad_crop_handler]\<rparr>))"
proof -
  define h1 :: "ref \<Rightarrow> json service"
    where "h1 = empty_store(0 := \<lparr>impls = [IMAGE_MANIPULATION \<mapsto> score_handler]\<rparr>)"
  define h2 :: "ref \<Rightarrow> json service"
    where "h2 = empty_store(0 := \<lparr>impls =
      [IMAGE_MANIPULATION \<mapsto> score_handler, VIDEO_MANIPULATION \<mapsto> unsupported_handler]\<rparr>)"
  define h3 :: "ref \<Rightarrow> json service"
    where "h3 = empty_store(0 := \<lparr>impls =
      [IMAGE_MANIPULATION \<mapsto> score_handler, VIDEO_MANIPULATION \<mapsto> unsupported_handler,
       IMAGE_SPLICE \<mapsto> crashing_handler]\<rparr>)"
  define h4 :: "ref \<Rightarrow> json service"
    where "h4 = empty_store(0 := \<lparr>impls =
      [IMAGE_MANIPULATION \<mapsto> score_handler, VIDEO_MANIPULATION \<mapsto> unsupported_handler,
       IMAGE_SPLICE \<mapsto> crashing_handler, IMAGE_CAMERA_MATCH \<mapsto> bad_crop_handler]\<rparr>)"
  have s0: "RegisterImpl 0 IMAGE_SPLICE crashing_handler empty_store
      = (Inr 0, empty_store(0 := \<lparr>impls = [IMAGE_SPLICE \<mapsto> crashing_handler]\<rparr>))"
    using Register_returns_self [where self = 0 and h = empty_store and f = crashing_handler
        and t = IMAGE_SPLICE] ALLOWED_IMPLS_members(3)
    by (simp add: empty_store_def)
  have s1: "RegisterImageManipulation 0 score_handler empty_store = (Inr 0, h1)"
    using Register_returns_self [where self = 0 and h = empty_store and f = score_handler]
    by (simp add: empty_store_def h1_def)
  have s2: "RegisterVideoManipulation 0 unsupported_handler h1 = (Inr 0, h2)"
    using Register_returns_self [where self = 0 and h = h1 and f = unsupported_handler]
      endpoint_names_distinct
    by (simp add: h1_def h2_def)
  have s3: "RegisterImageSplice 0 crashing_handler h2 = (Inr 0, h3)"
    using Register_returns_self [where self = 0 and h = h2 and f = crashing_handler]
      endpoint_names_distinct
    by (simp add: h2_def h3_def)
  have s4: "RegisterImageCameraMatch 0 bad_crop_handler h3 = (Inr 0, h4)"
    using Register_returns_self [where self = 0 and h = h3 and f = bad_crop_handler]
      endpoint_names_distinct
    by (simp add: h3_def h4_def)
  show ?thesis
    unfolding h1_def [symmetric] h4_def [symmetric]
    by (simp add: then_call_def s0 s1 s2 s3 s4)
qed

section \<open>The dispatch core\<close>

lemma py_repr_ALLOWED:
  assumes "t \<in> ALLOWED_IMPLS"
  shows "py_repr t = [CHR 0x27] @ t @ [CHR 0x27]"
proof -
  have a: "py_repr ''ImageManipulation'' = [CHR 0x27] @ ''ImageManipulation'' @ [CHR 0x27]"
    by code_simp
  have b: "py_repr ''VideoManipulation'' = [CHR 0x27] @ ''VideoManipulation'' @ [CHR 0x27]"
    by code_simp
  have c: "py_repr ''ImageSplice'' = [CHR 0x27] @ ''ImageSplice'' @ [CHR 0x27]"
    by code_simp
  have d: "py_repr ''ImageCameraMatch'' = [CHR 0x27] @ ''ImageCameraMatch'' @ [CHR 0x27]"
    by code_simp
  from assms consider "t = ''ImageManipulation''" | "t = ''VideoManipulation''"
    | "t = ''ImageSplice''" | "t = ''ImageCameraMatch''"
    unfolding ALLOWED_IMPLS_eval by blast
  then show ?thesis
    using a b c d by cases simp_all
qed

lemma sublist_quoted:
  "py_repr t = [CHR 0x27] @ t @ [CHR 0x27] \<Longrightarrow> sublist t (pre @ py_repr t @ post)"
proof -
  assume q: "py_repr t = [CHR 0x27] @ t @ [CHR 0x27]"
  have "pre @ py_repr t @ post = (pre @ [CHR 0x27]) @ t @ ([CHR 0x27] @ post)"
    by (simp add: q)
  then show ?thesis by (metis sublist_appendI)
qed


lemma CallEndpoint_raising:
  assumes "impls self t = Some (Callable f)" and "f req resp = (resp', Some e)"
  shows "CallEndpoint fe self t req resp ctx =
    (if isinstance_ValueError e then
       aborted ctx INVALID_ARGUMENT (''Endpoint '' @ py_repr t @ '' invalid input: '' @ py_str e) resp' 1
     else if isinstance_NotImplementedError e then
       aborted ctx UNIMPLEMENTED (''Endpoint '' @ py_repr t @ '' not implemented: '' @ py_str e) resp' 1
     else if isinstance_Exception e then
       aborted ctx UNKNOWN (''Error processing endpoint '' @ py_repr t @ '': '' @ fe e) resp' 1
     else \<lparr>outcome = Inl e, resp_obj = resp', aborts = [], invoked = 1\<rparr>)"
  using assms by (simp add: CallEndpoint_def)

lemma CallEndpoint_returning:
  assumes "impls self t = Some (Callable f)" and "f req resp = (resp', None)"
  shows "CallEndpoint fe self t req resp ctx =
    \<lparr>outcome = Inr resp', resp_obj = resp', aborts = [], invoked = 1\<rparr>"
  using assms by (simp add: CallEndpoint_def)

lemma CallEndpoint_absent:
  assumes "impls self t = None \<or> impls self t = Some NoneObj"
  shows "CallEndpoint fe self t req resp ctx =
    aborted ctx UNIMPLEMENTED (''Endpoint '' @ py_repr t @ '' not implemented'') resp 0"
  using assms by (auto simp: CallEndpoint_def)

lemma sublist_suffix_part: "sublist m (pre @ m)"
  unfolding sublist_def by (rule exI [of _ pre], rule exI [of _ "[]"]) simp

lemma example_service_impls:
  "impls example_service IMAGE_MANIPULATION = Some bad_crop_handler"
  "impls example_service VIDEO_MANIPULATION = Some unsupported_handler"
  "impls example_service IMAGE_SPLICE = Some crashing_handler"
  "impls example_service IMAGE_CAMERA_MATCH = None"
  by (simp_all add: example_service_def IMAGE_MANIPULATION_def VIDEO_MANIPULATION_def
      IMAGE_SPLICE_def IMAGE_CAMERA_MATCH_def)

lemma py_repr_names:
  "py_repr IMAGE_MANIPULATION = [CHR 0x27] @ ''ImageManipulation'' @ [CHR 0x27]"
  "py_repr VIDEO_MANIPULATION = [CHR 0x27] @ ''VideoManipulation'' @ [CHR 0x27]"
  "py_repr IMAGE_SPLICE = [CHR 0x27] @ ''ImageSplice'' @ [CHR 0x27]"
  "py_repr IMAGE_CAMERA_MATCH = [CHR 0x27] @ ''ImageCameraMatch'' @ [CHR 0x27]"
  using py_repr_ALLOWED [of IMAGE_MANIPULATION] py_repr_ALLOWED [of VIDEO_MANIPULATION]
    py_repr_ALLOWED [of IMAGE_SPLICE] py_repr_ALLOWED [of IMAGE_CAMERA_MATCH]
  by (simp_all add: ALLOWED_IMPLS_def)
     (simp_all add: IMAGE_MANIPULATION_def VIDEO_MANIPULATION_def
      IMAGE_SPLICE_def IMAGE_CAMERA_MATCH_def)

text \<open>
  Claim C3. When the registry has no entry for the endpoint type, \<^verbatim>\<open>_CallEndpoint\<close> calls
  \<^verbatim>\<open>ctx.abort\<close> once, with \<^verbatim>\<open>UNIMPLEMENTED\<close> and the message
  \<^verbatim>\<open>Endpoint <repr of the type> not implemented\<close>, the abort is what the call raises, and
  no implementation is invoked. For each of the four endpoint types the message contains
  the name of the type.
\<close>

theorem CallEndpoint_unregistered:
  assumes "impls self t = None"
  shows "outcome (CallEndpoint fe self t req resp ctx)
           = Inl (abort ctx UNIMPLEMENTED (''Endpoint '' @ py_repr t @ '' not implemented''))
       \<and> aborts (CallEndpoint fe self t req resp ctx)
           = [(UNIMPLEMENTED, ''Endpoint '' @ py_repr t @ '' not implemented'')]
       \<and> invoked (CallEndpoint fe self t req resp ctx) = 0
       \<and> (t \<in> ALLOWED_IMPLS \<longrightarrow> sublist t (''Endpoint '' @ py_repr t @ '' not implemented''))"
proof -
  have "CallEndpoint fe self t req resp ctx =
      aborted ctx UNIMPLEMENTED (''Endpoint '' @ py_repr t @ '' not implemented'') resp 0"
    by (rule CallEndpoint_absent) (simp add: assms)
  moreover have "t \<in> ALLOWED_IMPLS \<longrightarrow> sublist t (''Endpoint '' @ py_repr t @ '' not implemented'')"
    using py_repr_ALLOWED sublist_quoted by blast
  ultimately show ?thesis by (simp add: aborted_def)
qed

theorem CallEndpoint_unregistered_witness:
  "aborts (CallEndpoint example_format_exc example_service IMAGE_CAMERA_MATCH JNull (JDict []) FIFOContext)
     = [(UNIMPLEMENTED, ''Endpoint 'ImageCameraMatch' not implemented'')]
   \<and> outcome (CallEndpoint example_format_exc example_service IMAGE_CAMERA_MATCH JNull (JDict []) FIFOContext)
     = Inl (FIFOContextAbortedError UNIMPLEMENTED ''Endpoint 'ImageCameraMatch' not implemented'')
   \<and> invoked (CallEndpoint example_format_exc example_service IMAGE_CAMERA_MATCH JNull (JDict []) FIFOContext) = 0
   \<and> sublist IMAGE_CAMERA_MATCH ''Endpoint 'ImageCameraMatch' not implemented''"
proof -
  have absent: "impls example_service IMAGE_CAMERA_MATCH = None"
    by (simp add: example_service_def IMAGE_MANIPULATION_def VIDEO_MANIPULATION_def IMAGE_SPLICE_def
      IMAGE_CAMERA_MATCH_def)
  have allowed: "IMAGE_CAMERA_MATCH \<in> ALLOWED_IMPLS"
    by (simp add: ALLOWED_IMPLS_def)
  have msg: "''Endpoint '' @ py_repr IMAGE_CAMERA_MATCH @ '' not implemented''
      = ''Endpoint 'ImageCameraMatch' not implemented''"
    by (simp add: py_repr_ALLOWED [OF allowed]) (simp add: IMAGE_CAMERA_MATCH_def)
  show ?thesis
    using CallEndpoint_unregistered [OF absent, of example_format_exc JNull "JDict []" FIFOContext] allowed
    unfolding msg by simp
qed


text \<open>
  Claim C1. When the implementation registered for the type raises an exception (an
  instance of \<^verbatim>\<open>Exception\<close>; \<^verbatim>\<open>KeyboardInterrupt\<close> and \<^verbatim>\<open>SystemExit\<close> are no failures
  of the implementation and pass through), \<^verbatim>\<open>_CallEndpoint\<close> has called the
  implementation once and calls \<^verbatim>\<open>ctx.abort\<close> exactly once, which is what the call raises:
  with \<^verbatim>\<open>INVALID_ARGUMENT\<close> and a message that contains the text of the exception and, for
  each of the four endpoint types, the name of the type, for a \<^verbatim>\<open>ValueError\<close>; with
  \<^verbatim>\<open>UNIMPLEMENTED\<close> and a message that contains the text of the exception, for a
  \<^verbatim>\<open>NotImplementedError\<close>; with \<^verbatim>\<open>UNKNOWN\<close> and the formatted traceback, for any other.
\<close>

theorem CallEndpoint_handler_failure:
  assumes "impls self t = Some (Callable f)"
    and "f req resp = (resp', Some e)"
    and "isinstance_Exception e"
  shows "invoked (CallEndpoint fe self t req resp ctx) = 1
     \<and> (isinstance_ValueError e \<longrightarrow>
          aborts (CallEndpoint fe self t req resp ctx)
            = [(INVALID_ARGUMENT, ''Endpoint '' @ py_repr t @ '' invalid input: '' @ py_str e)]
        \<and> outcome (CallEndpoint fe self t req resp ctx)
            = Inl (abort ctx INVALID_ARGUMENT (''Endpoint '' @ py_repr t @ '' invalid input: '' @ py_str e))
        \<and> sublist (py_str e) (''Endpoint '' @ py_repr t @ '' invalid input: '' @ py_str e)
        \<and> (t \<in> ALLOWED_IMPLS \<longrightarrow>
              sublist t (''Endpoint '' @ py_repr t @ '' invalid input: '' @ py_str e)))
     \<and> (\<not> isinstance_ValueError e \<and> isinstance_NotImplementedError e \<longrightarrow>
          aborts (CallEndpoint fe self t req resp ctx)
            = [(UNIMPLEMENTED, ''Endpoint '' @ py_repr t @ '' not implemented: '' @ py_str e)]
        \<and> outcome (CallEndpoint fe self t req resp ctx)
            = Inl (abort ctx UNIMPLEMENTED (''Endpoint '' @ py_repr t @ '' not implemented: '' @ py_str e))
        \<and> sublist (py_str e) (''Endpoint '' @ py_repr t @ '' not implemented: '' @ py_str e))
     \<and> (\<not> isinstance_ValueError e \<and> \<not> isinstance_NotImplementedError e \<longrightarrow>
          aborts (CallEndpoint fe self t req resp ctx)
            = [(UNKNOWN, ''Error processing endpoint '' @ py_repr t @ '': '' @ fe e)]
        \<and> outcome (CallEndpoint fe self t req resp ctx)
            = Inl (abort ctx UNKNOWN (''Error processing endpoint '' @ py_repr t @ '': '' @ fe e)))"
proof -
  note call = CallEndpoint_raising [OF assms(1) assms(2), of fe ctx]
  have s1: "sublist (py_str e) (''Endpoint '' @ py_repr t @ '' invalid input: '' @ py_str e)"
    using sublist_suffix_part [of "py_str e" "''Endpoint '' @ py_repr t @ '' invalid input: ''"]
    by simp
  have s2: "sublist (py_str e) (''Endpoint '' @ py_repr t @ '' not implemented: '' @ py_str e)"
    using sublist_suffix_part [of "py_str e" "''Endpoint '' @ py_repr t @ '' not implemented: ''"]
    by simp
  have s3: "t \<in> ALLOWED_IMPLS \<longrightarrow>
      sublist t (''Endpoint '' @ py_repr t @ '' invalid input: '' @ py_str e)"
    using py_repr_ALLOWED sublist_quoted by blast
  have n: "invoked (CallEndpoint fe self t req resp ctx) = 1"
    unfolding call by (simp add: aborted_def)
  have v: "isinstance_ValueError e \<longrightarrow>
          aborts (CallEndpoint fe self t req resp ctx)
            = [(INVALID_ARGUMENT, ''Endpoint '' @ py_repr t @ '' invalid input: '' @ py_str e)]
        \<and> outcome (CallEndpoint fe self t req resp ctx)
            = Inl (abort ctx INVALID_ARGUMENT (''Endpoint '' @ py_repr t @ '' invalid input: '' @ py_str e))"
    unfolding call by (simp add: aborted_def)
  have u: "\<not> isinstance_ValueError e \<and> isinstance_NotImplementedError e \<longrightarrow>
          aborts (CallEndpoint fe self t req resp ctx)
            = [(UNIMPLEMENTED, ''Endpoint '' @ py_repr t @ '' not implemented: '' @ py_str e)]
        \<and> outcome (CallEndpoint fe self t req resp ctx)
            = Inl (abort ctx UNIMPLEMENTED (''Endpoint '' @ py_repr t @ '' not implemented: '' @ py_str e))"
    unfolding call by (simp add: aborted_def)
  have k: "\<not> isinstance_ValueError e \<and> \<not> isinstance_NotImplementedError e \<longrightarrow>
          aborts (CallEndpoint fe self t req resp ctx)
            = [(UNKNOWN, ''Error processing endpoint '' @ py_repr t @ '': '' @ fe e)]
        \<and> outcome (CallEndpoint fe self t req resp ctx)
            = Inl (abort ctx UNKNOWN (''Error processing endpoint '' @ py_repr t @ '': '' @ fe e))"
    unfolding call using assms(3) by (simp add: aborted_def)
  show ?thesis using n v u k s1 s2 s3 by blast
qed

theorem CallEndpoint_handler_failure_witness:
  "aborts (CallEndpoint example_format_exc example_service IMAGE_MANIPULATION JNull (JDict []) FIFOContext)
     = [(INVALID_ARGUMENT, ''Endpoint 'ImageManipulation' invalid input: bad crop'')]
   \<and> sublist ''bad crop'' ''Endpoint 'ImageManipulation' invalid input: bad crop''
   \<and> sublist IMAGE_MANIPULATION ''Endpoint 'ImageManipulation' invalid input: bad crop''
   \<and> aborts (CallEndpoint example_format_exc example_service VIDEO_MANIPULATION JNull (JDict []) FIFOContext)
     = [(UNIMPLEMENTED, ''Endpoint 'VideoManipulation' not implemented: no video'')]
   \<and> aborts (CallEndpoint example_format_exc example_service IMAGE_SPLICE JNull (JDict []) ServicerContext)
     = [(UNKNOWN, ''Error processing endpoint 'ImageSplice': '' @
          example_format_exc (OtherException ''division by zero''))]"
proof -
  have allowed: "IMAGE_MANIPULATION \<in> ALLOWED_IMPLS"
    by (simp add: ALLOWED_IMPLS_def)
  have crop: "invoked (CallEndpoint example_format_exc example_service IMAGE_MANIPULATION JNull (JDict []) FIFOContext) = 1
     \<and> aborts (CallEndpoint example_format_exc example_service IMAGE_MANIPULATION JNull (JDict []) FIFOContext)
       = [(INVALID_ARGUMENT, ''Endpoint '' @ py_repr IMAGE_MANIPULATION @ '' invalid input: '' @ ''bad crop'')]
     \<and> sublist ''bad crop'' (''Endpoint '' @ py_repr IMAGE_MANIPULATION @ '' invalid input: '' @ ''bad crop'')
     \<and> sublist IMAGE_MANIPULATION (''Endpoint '' @ py_repr IMAGE_MANIPULATION @ '' invalid input: '' @ ''bad crop'')"
    using CallEndpoint_handler_failure [where self = example_service and t = IMAGE_MANIPULATION
        and f = "\<lambda>req resp. (resp, Some (ValueError ''bad crop''))" and req = JNull
        and resp = "JDict []" and resp' = "JDict []" and e = "ValueError ''bad crop''"
        and fe = example_format_exc and ctx = FIFOContext] allowed
    by (simp add: example_service_impls bad_crop_handler_def)
  have video: "aborts (CallEndpoint example_format_exc example_service VIDEO_MANIPULATION JNull (JDict []) FIFOContext)
       = [(UNIMPLEMENTED, ''Endpoint '' @ py_repr VIDEO_MANIPULATION @ '' not implemented: '' @ ''no video'')]"
    using CallEndpoint_handler_failure [where self = example_service and t = VIDEO_MANIPULATION
        and f = "\<lambda>req resp. (resp, Some (NotImplementedError ''no video''))" and req = JNull
        and resp = "JDict []" and resp' = "JDict []" and e = "NotImplementedError ''no video''"
        and fe = example_format_exc and ctx = FIFOContext]
    by (simp add: example_service_impls unsupported_handler_def)
  have splice: "aborts (CallEndpoint example_format_exc example_service IMAGE_SPLICE JNull (JDict []) ServicerContext)
       = [(UNKNOWN, ''Error processing endpoint '' @ py_repr IMAGE_SPLICE @ '': '' @
            example_format_exc (OtherException ''division by zero''))]"
    using CallEndpoint_handler_failure [where self = example_service and t = IMAGE_SPLICE
        and f = "\<lambda>req resp. (JDict [(''score'', JFloat ''0.25'')], Some (OtherException ''division by zero''))"
        and req = JNull and resp = "JDict []" and resp' = "JDict [(''score'', JFloat ''0.25'')]"
        and e = "OtherException ''division by zero''"
        and fe = example_format_exc and ctx = ServicerContext]
    by (simp add: example_service_impls crashing_handler_def)
  show ?thesis
    using crop video splice by (simp add: py_repr_names)
qed


text \<open>
  Claim C9. \<^verbatim>\<open>_CallEndpoint\<close> leaves the response object in the state in which the
  implementation left it: when the implementation returns, that object is what the call
  returns, and when the implementation raises an exception that is neither a
  \<^verbatim>\<open>ValueError\<close> nor a \<^verbatim>\<open>NotImplementedError\<close>, the call aborts with \<^verbatim>\<open>UNKNOWN\<close> and
  the response object keeps what the implementation had written to it.
\<close>

theorem CallEndpoint_response_untouched:
  assumes "impls self t = Some (Callable f)"
    and "f req resp = (resp', r)"
  shows "resp_obj (CallEndpoint fe self t req resp ctx) = resp'
     \<and> (r = None \<longrightarrow>
          outcome (CallEndpoint fe self t req resp ctx) = Inr resp'
          \<and> aborts (CallEndpoint fe self t req resp ctx) = [])
     \<and> (\<forall>e. r = Some e \<and> isinstance_Exception e \<and> \<not> isinstance_ValueError e
              \<and> \<not> isinstance_NotImplementedError e \<longrightarrow>
          aborts (CallEndpoint fe self t req resp ctx)
            = [(UNKNOWN, ''Error processing endpoint '' @ py_repr t @ '': '' @ fe e)]
          \<and> resp_obj (CallEndpoint fe self t req resp ctx) = resp')"
proof (cases r)
  case None
  then show ?thesis
    using CallEndpoint_returning [OF assms(1), of req resp resp' fe ctx] assms(2) by simp
next
  case (Some e)
  then have call: "CallEndpoint fe self t req resp ctx =
    (if isinstance_ValueError e then
       aborted ctx INVALID_ARGUMENT (''Endpoint '' @ py_repr t @ '' invalid input: '' @ py_str e) resp' 1
     else if isinstance_NotImplementedError e then
       aborted ctx UNIMPLEMENTED (''Endpoint '' @ py_repr t @ '' not implemented: '' @ py_str e) resp' 1
     else if isinstance_Exception e then
       aborted ctx UNKNOWN (''Error processing endpoint '' @ py_repr t @ '': '' @ fe e) resp' 1
     else \<lparr>outcome = Inl e, resp_obj = resp', aborts = [], invoked = 1\<rparr>)"
    using CallEndpoint_raising [OF assms(1), of req resp resp' e fe ctx] assms(2) by simp
  show ?thesis unfolding call using Some by (simp add: aborted_def)
qed

theorem CallEndpoint_response_untouched_witness:
  "resp_obj (CallEndpoint example_format_exc scoring_service IMAGE_MANIPULATION JNull (JDict []) FIFOContext)
     = JDict [(''score'', JFloat ''0.5'')]
   \<and> outcome (CallEndpoint example_format_exc scoring_service IMAGE_MANIPULATION JNull (JDict []) FIFOContext)
     = Inr (JDict [(''score'', JFloat ''0.5'')])
   \<and> resp_obj (CallEndpoint example_format_exc example_service IMAGE_SPLICE JNull (JDict []) FIFOContext)
     = JDict [(''score'', JFloat ''0.25'')]
   \<and> aborts (CallEndpoint example_format_exc example_service IMAGE_SPLICE JNull (JDict []) FIFOContext)
     = [(UNKNOWN, ''Error processing endpoint 'ImageSplice': '' @
          example_format_exc (OtherException ''division by zero''))]"
proof -
  have ok: "resp_obj (CallEndpoint example_format_exc scoring_service IMAGE_MANIPULATION JNull (JDict []) FIFOContext)
       = JDict [(''score'', JFloat ''0.5'')]
     \<and> outcome (CallEndpoint example_format_exc scoring_service IMAGE_MANIPULATION JNull (JDict []) FIFOContext)
       = Inr (JDict [(''score'', JFloat ''0.5'')])"
    using CallEndpoint_response_untouched [where self = scoring_service and t = IMAGE_MANIPULATION
        and f = "\<lambda>req resp. (JDict [(''score'', JFloat ''0.5'')], None)" and req = JNull
        and resp = "JDict []" and resp' = "JDict [(''score'', JFloat ''0.5'')]" and r = None
        and fe = example_format_exc and ctx = FIFOContext]
    by (simp add: scoring_service_def score_handler_def)
  have crash: "resp_obj (CallEndpoint example_format_exc example_service IMAGE_SPLICE JNull (JDict []) FIFOContext)
       = JDict [(''score'', JFloat ''0.25'')]
     \<and> aborts (CallEndpoint example_format_exc example_service IMAGE_SPLICE JNull (JDict []) FIFOContext)
       = [(UNKNOWN, ''Error processing endpoint '' @ py_repr IMAGE_SPLICE @ '': '' @
            example_format_exc (OtherException ''division by zero''))]"
    using CallEndpoint_response_untouched [where self = example_service and t = IMAGE_SPLICE
        and f = "\<lambda>req resp. (JDict [(''score'', JFloat ''0.25'')], Some (OtherException ''division by zero''))"
        and req = JNull and resp = "JDict []" and resp' = "JDict [(''score'', JFloat ''0.25'')]"
        and r = "Some (OtherException ''division by zero'')"
        and fe = example_format_exc and ctx = FIFOContext]
    by (simp add: example_service_impls crashing_handler_def)
  show ?thesis
    using ok crash by (simp add: py_repr_names)
qed

section \<open>Sending and receiving on the pipes\<close>

lemma ensureOpen_frame:
  assumes "ensureOpen E s = (r, s1)"
  shows "impls s1 = impls s" "inbound s1 = inbound s" "outbound s1 = outbound s"
    "\<exists>opens. trace s1 = trace s @ opens \<and> set opens \<subseteq> {Open Receiver, Open Sender}"
    "flushed s \<Longrightarrow> flushed s1"
    "r = Inr () \<Longrightarrow> receiver s1 \<noteq> None \<and> sender s1 \<noteq> None"
  using assms
  by (auto simp: ensureOpen_def flushed_def split: if_splits option.splits)

lemma ensureOpen_opened:
  assumes "receiver s \<noteq> None" and "sender s \<noteq> None"
  shows "ensureOpen E s = (Inr (), s)"
  using assms by (auto simp: ensureOpen_def)


lemma send_written:
  assumes "ensureOpen E s = (Inr (), s1)" and "sender s1 = Some f" and "\<not> closed f"
    and "py_any (select E [] [Sender] [Sender] (selArgs_timeout timeout))"
  shows "send E data timeout s =
    (Inr (), s1\<lparr>trace := trace s1 @ [Select Sender],
                sender := Some (f\<lparr>buf := []\<rparr>),
                outbound := outbound s1 @ buf f @ data @ ''\<newline>'',
                trace := (trace s1 @ [Select Sender]) @ [Write, Flush]\<rparr>)"
  using assms by (simp add: send_def)



lemma readline_split: "fst (readline d) @ snd (readline d) = d"
proof (cases "dropWhile (\<lambda>c. c \<noteq> CHR 0x0A) d")
  case Nil
  show ?thesis unfolding readline_def Nil by simp
next
  case (Cons c rest)
  have "takeWhile (\<lambda>c. c \<noteq> CHR 0x0A) d @ dropWhile (\<lambda>c. c \<noteq> CHR 0x0A) d = d"
    by simp
  then show ?thesis unfolding readline_def Cons by simp
qed


lemma str_nat_0: "str_nat 0 = ''0''" by code_simp







section \<open>The serving step\<close>

lemma send_frame:
  assumes "send E data timeout s = (r, s')"
  shows "impls s' = impls s" "inbound s' = inbound s"
    "\<exists>evs. trace s' = trace s @ evs \<and> LockAcquire \<notin> set evs \<and> LockRelease \<notin> set evs
        \<and> HandlerCall \<notin> set evs"
    "r \<noteq> Inr () \<Longrightarrow> outbound s' = outbound s"
    "flushed s \<Longrightarrow> flushed s'"
proof -
  obtain r0 s0 where eo: "ensureOpen E s = (r0, s0)" by (cases "ensureOpen E s")
  note fr = ensureOpen_frame [OF eo]
  from fr(4) obtain opens where tr: "trace s0 = trace s @ opens"
    and op: "set opens \<subseteq> {Open Receiver, Open Sender}" by blast
  have nl: "LockAcquire \<notin> set opens" "LockRelease \<notin> set opens" "HandlerCall \<notin> set opens"
    using op by auto
  show "impls s' = impls s"
    using assms eo fr(1)
    by (auto simp: send_def Let_def split: sum.splits option.splits if_splits)
  show "inbound s' = inbound s"
    using assms eo fr(2)
    by (auto simp: send_def Let_def split: sum.splits option.splits if_splits)
  show "\<exists>evs. trace s' = trace s @ evs \<and> LockAcquire \<notin> set evs \<and> LockRelease \<notin> set evs
        \<and> HandlerCall \<notin> set evs"
    using assms eo tr nl
    by (auto simp: send_def Let_def split: sum.splits option.splits if_splits)
  show "outbound s' = outbound s" if "r \<noteq> Inr ()"
    using that assms eo fr(3)
    by (auto simp: send_def Let_def split: sum.splits option.splits if_splits)
  show "flushed s'" if "flushed s"
    using assms eo fr(5) [OF that]
    by (auto simp: send_def Let_def flushed_def split: sum.splits option.splits if_splits)
qed

lemma receive_frame:
  assumes "receive E timeout s = (r, s')"
  shows "impls s' = impls s" "outbound s' = outbound s"
    "\<exists>evs. trace s' = trace s @ evs \<and> LockAcquire \<notin> set evs \<and> LockRelease \<notin> set evs
        \<and> HandlerCall \<notin> set evs"
    "flushed s \<Longrightarrow> flushed s'"
    "r = Inr line \<Longrightarrow> receiver s' \<noteq> None \<and> sender s' \<noteq> None
        \<and> line = fst (readline (inbound s)) \<and> inbound s' = snd (readline (inbound s))"
    "\<forall>line. r \<noteq> Inr line \<Longrightarrow> inbound s' = inbound s"
proof -
  obtain r0 s0 where eo: "ensureOpen E s = (r0, s0)" by (cases "ensureOpen E s")
  note fr = ensureOpen_frame [OF eo]
  from fr(4) obtain opens where tr: "trace s0 = trace s @ opens"
    and op: "set opens \<subseteq> {Open Receiver, Open Sender}" by blast
  have nl: "LockAcquire \<notin> set opens" "LockRelease \<notin> set opens" "HandlerCall \<notin> set opens"
    using op by auto
  show "impls s' = impls s"
    using assms eo fr(1)
    by (auto simp: receive_def Let_def split: sum.splits option.splits if_splits)
  show "outbound s' = outbound s"
    using assms eo fr(3)
    by (auto simp: receive_def Let_def split: sum.splits option.splits if_splits)
  show "\<exists>evs. trace s' = trace s @ evs \<and> LockAcquire \<notin> set evs \<and> LockRelease \<notin> set evs
        \<and> HandlerCall \<notin> set evs"
    using assms eo tr nl
    by (auto simp: receive_def Let_def split: sum.splits option.splits if_splits)
  show "flushed s'" if "flushed s"
    using assms eo fr(5) [OF that]
    by (auto simp: receive_def Let_def flushed_def split: sum.splits option.splits if_splits)
  show "receiver s' \<noteq> None \<and> sender s' \<noteq> None
        \<and> line = fst (readline (inbound s)) \<and> inbound s' = snd (readline (inbound s))"
    if "r = Inr line"
    using that assms eo fr(2) fr(6)
    by (auto simp: receive_def Let_def split: sum.splits option.splits if_splits)
  show "inbound s' = inbound s" if "\<forall>line. r \<noteq> Inr line"
    using that assms eo fr(2)
    by (auto simp: receive_def Let_def split: sum.splits option.splits if_splits)
qed

lemma ensureOpen_can_send:
  assumes "ensureOpen E s = (r, s1)" and "can_send E s"
  shows "can_send E s1"
  using assms
  by (auto simp: ensureOpen_def can_send_def split: if_splits option.splits)

lemma receive_can_send:
  assumes "receive E timeout s = (r, s')" and "can_send E s"
  shows "can_send E s'"
proof -
  obtain r0 s0 where eo: "ensureOpen E s = (r0, s0)" by (cases "ensureOpen E s")
  have "can_send E s0" using ensureOpen_can_send [OF eo assms(2)] .
  then show ?thesis
    using assms(1) eo
    by (auto simp: receive_def Let_def can_send_def split: sum.splits option.splits if_splits)
qed

lemma send_appends:
  assumes "send E data timeout s = (Inr (), s')" and "flushed s"
  shows "outbound s' = outbound s @ data @ ''\<newline>''"
proof -
  obtain r0 s0 where eo: "ensureOpen E s = (r0, s0)" by (cases "ensureOpen E s")
  note fr = ensureOpen_frame [OF eo]
  show ?thesis
    using assms(1) eo fr(3) fr(5) [OF assms(2)]
    by (auto simp: send_def Let_def flushed_def split: sum.splits option.splits if_splits)
qed

lemma send_ready:
  assumes "receiver s \<noteq> None" and "sender s \<noteq> None" and "can_send E s" and "flushed s"
  shows "\<exists>s'. send E data 0 s = (Inr (), s') \<and> outbound s' = outbound s @ data @ ''\<newline>''
     \<and> trace s' = trace s @ [Select Sender, Write, Flush]"
proof -
  from assms(2) assms(3) obtain f where f: "sender s = Some f" "\<not> closed f"
    and sel: "py_any (select E [] [Sender] [Sender] None)"
    by (auto simp: can_send_def split: option.splits)
  have eo: "ensureOpen E s = (Inr (), s)"
    using ensureOpen_opened [OF assms(1) assms(2)] .
  have bf: "buf f = []" using assms(4) f by (simp add: flushed_def)
  have sel0: "py_any (select E [] [Sender] [Sender] (selArgs_timeout 0))"
    using sel by (simp add: selArgs_timeout_def)
  show ?thesis
    using send_written [OF eo f(1) f(2) sel0, of data] bf by simp
qed

lemma acquire_fields [simp]:
  "impls (acquire s) = impls s" "inbound (acquire s) = inbound s"
  "outbound (acquire s) = outbound s" "sender (acquire s) = sender s"
  "receiver (acquire s) = receiver s" "trace (acquire s) = trace s @ [LockAcquire]"
  by (simp_all add: acquire_def)

lemma release_fields [simp]:
  "impls (release s) = impls s" "inbound (release s) = inbound s"
  "outbound (release s) = outbound s" "sender (release s) = sender s"
  "receiver (release s) = receiver s" "trace (release s) = trace s @ [LockRelease]"
  by (simp_all add: release_def)

lemma flushed_acquire [simp]: "flushed (acquire s) = flushed s"
  by (simp add: flushed_def)

lemma can_send_acquire [simp]: "can_send E (acquire s) = can_send E s"
  by (simp add: can_send_def)


lemma try_dispatch_aborted:
  assumes "outcome (CallEndpoint (format_exc E) s callType req resp FIFOContext)
      = Inl (FIFOContextAbortedError code details)"
    and "receiver s \<noteq> None" and "sender s \<noteq> None" and "can_send E s" and "flushed s"
  shows "\<exists>s'. try_dispatch E callType req resp s = (Inr (), s')
     \<and> outbound s' = outbound s @ abort_message code details @ ''\<newline>''
     \<and> inbound s' = inbound s
     \<and> trace s' = trace s
          @ replicate (invoked (CallEndpoint (format_exc E) s callType req resp FIFOContext)) HandlerCall
          @ [Select Sender, Write, Flush]"
proof -
  define s1 where "s1 = s\<lparr>trace := trace s
      @ replicate (invoked (CallEndpoint (format_exc E) s callType req resp FIFOContext)) HandlerCall\<rparr>"
  have pre: "receiver s1 \<noteq> None" "sender s1 \<noteq> None" "can_send E s1" "flushed s1"
    using assms(2-5) by (simp_all add: s1_def can_send_def flushed_def)
  from send_ready [OF pre, of "abort_message code details"]
  obtain s' where snd: "send E (abort_message code details) 0 s1 = (Inr (), s')"
    and ob: "outbound s' = outbound s1 @ abort_message code details @ ''\<newline>''"
    and tr: "trace s' = trace s1 @ [Select Sender, Write, Flush]" by blast
  have ib: "inbound s' = inbound s1" using send_frame(2) [OF snd] .
  have "try_dispatch E callType req resp s = (Inr (), s')"
    using assms(1) snd by (simp add: try_dispatch_def Let_def s1_def)
  then show ?thesis using ob tr ib by (simp add: s1_def)
qed


lemma send_opened_result:
  assumes "receiver s \<noteq> None" and "sender s \<noteq> None" and "send E data timeout s = (r, s')"
  shows "(r = Inr () \<and> trace s' = trace s @ [Select Sender, Write, Flush])
     \<or> (\<exists>e. r = Inl e \<and> (\<forall>code details. e \<noteq> FIFOContextAbortedError code details))"
  using assms(3) ensureOpen_opened [OF assms(1) assms(2), of E]
  by (auto simp: send_def Let_def FIFOTimeoutError_init_def split: option.splits if_splits)

lemma try_dispatch_frame:
  assumes "try_dispatch E callType req resp s = (r, s')"
  shows "impls s' = impls s" "inbound s' = inbound s"
    "\<exists>evs. trace s' = trace s @ evs \<and> LockAcquire \<notin> set evs \<and> LockRelease \<notin> set evs"
    "r \<noteq> Inr () \<Longrightarrow> outbound s' = outbound s"
proof -
  define d where "d = CallEndpoint (format_exc E) s callType req resp FIFOContext"
  define s1 where "s1 = s\<lparr>trace := trace s @ replicate (invoked d) HandlerCall\<rparr>"
  define body where "body = (case outcome d of
      Inl e \<Rightarrow> (Inl e, s1)
    | Inr resp' \<Rightarrow> send E (ok_message (MessageToDict E resp')) 0 s1)"
  obtain rb s2 where b: "body = (rb, s2)" by (cases body)
  have s1f: "impls s1 = impls s" "inbound s1 = inbound s" "outbound s1 = outbound s"
    "trace s1 = trace s @ replicate (invoked d) HandlerCall"
    by (simp_all add: s1_def)
  have bf: "impls s2 = impls s1 \<and> inbound s2 = inbound s1
      \<and> (\<exists>evs. trace s2 = trace s1 @ evs \<and> LockAcquire \<notin> set evs \<and> LockRelease \<notin> set evs)
      \<and> (rb \<noteq> Inr () \<longrightarrow> outbound s2 = outbound s1)"
  proof (cases "outcome d")
    case (Inl e)
    then show ?thesis using b by (simp add: body_def)
  next
    case (Inr resp')
    then have "send E (ok_message (MessageToDict E resp')) 0 s1 = (rb, s2)"
      using b by (simp add: body_def)
    from send_frame [OF this] show ?thesis by blast
  qed
  have td: "try_dispatch E callType req resp s =
      (case (rb, s2) of
         (Inl (FIFOContextAbortedError code details), s2) \<Rightarrow> send E (abort_message code details) 0 s2
       | (r, s2) \<Rightarrow> (r, s2))"
    unfolding try_dispatch_def Let_def d_def [symmetric] s1_def [symmetric]
      body_def [symmetric] b ..
  have fin: "impls s' = impls s2 \<and> inbound s' = inbound s2
      \<and> (\<exists>evs. trace s' = trace s2 @ evs \<and> LockAcquire \<notin> set evs \<and> LockRelease \<notin> set evs)
      \<and> (r \<noteq> Inr () \<longrightarrow> outbound s' = outbound s2 \<and> rb \<noteq> Inr ())"
  proof (cases "\<exists>code details. rb = Inl (FIFOContextAbortedError code details)")
    case True
    then obtain code details where rb: "rb = Inl (FIFOContextAbortedError code details)" by blast
    then have "send E (abort_message code details) 0 s2 = (r, s')"
      using td assms by simp
    from send_frame [OF this] rb show ?thesis by auto
  next
    case False
    then have "try_dispatch E callType req resp s = (rb, s2)"
      unfolding td by (cases rb) (auto split: pyexc.splits)
    then have "r = rb" "s' = s2" using assms by simp_all
    then show ?thesis by simp
  qed
  show "impls s' = impls s" using fin bf s1f by simp
  show "inbound s' = inbound s" using fin bf s1f by simp
  show "outbound s' = outbound s" if "r \<noteq> Inr ()"
    using that fin bf s1f by simp
  from bf obtain e1 where e1: "trace s2 = trace s1 @ e1" "LockAcquire \<notin> set e1" "LockRelease \<notin> set e1"
    by blast
  from fin obtain e2 where e2: "trace s' = trace s2 @ e2" "LockAcquire \<notin> set e2" "LockRelease \<notin> set e2"
    by blast
  have "trace s' = trace s @ (replicate (invoked d) HandlerCall @ e1 @ e2)"
    using e1(1) e2(1) s1f(4) by simp
  moreover have "LockAcquire \<notin> set (replicate (invoked d) HandlerCall @ e1 @ e2)"
    "LockRelease \<notin> set (replicate (invoked d) HandlerCall @ e1 @ e2)"
    using e1 e2 by auto
  ultimately show "\<exists>evs. trace s' = trace s @ evs \<and> LockAcquire \<notin> set evs \<and> LockRelease \<notin> set evs"
    by blast
qed



lemma serveOnce_dispatched:
  assumes "receive E 0 (acquire s) = (Inr line, s1)" and "decode E line = Inr (callType, req, resp)"
  shows "serveOnce E s = (case try_dispatch E callType req resp s1 of (r, s') \<Rightarrow> (r, release s'))"
  using assms by (simp add: serveOnce_def serveOnce_locked_def)


lemma receive_trace:
  assumes "receive E timeout s = (Inr line, s')"
  shows "\<exists>opens. trace s' = trace s @ opens @ [Select Receiver, ReadLine]
     \<and> set opens \<subseteq> {Open Receiver, Open Sender}"
proof -
  obtain r0 s0 where eo: "ensureOpen E s = (r0, s0)" by (cases "ensureOpen E s")
  from ensureOpen_frame(4) [OF eo] obtain opens where tr: "trace s0 = trace s @ opens"
    and op: "set opens \<subseteq> {Open Receiver, Open Sender}" by blast
  have "trace s' = trace s0 @ [Select Receiver, ReadLine]"
    using assms eo
    by (auto simp: receive_def Let_def split: sum.splits option.splits if_splits)
  then show ?thesis using tr op by auto
qed

lemma try_dispatch_served:
  assumes "try_dispatch E callType req resp s = (Inr (), s')"
    and "receiver s \<noteq> None" and "sender s \<noteq> None" and "flushed s"
  shows "\<exists>msg n. outbound s' = outbound s @ msg @ ''\<newline>''
     \<and> ((\<exists>resp'. msg = ok_message (MessageToDict E resp')) \<or> (\<exists>code details. msg = abort_message code details))
     \<and> trace s' = trace s @ replicate n HandlerCall @ [Select Sender, Write, Flush]"
proof -
  define d where "d = CallEndpoint (format_exc E) s callType req resp FIFOContext"
  define s1 where "s1 = s\<lparr>trace := trace s @ replicate (invoked d) HandlerCall\<rparr>"
  have pre: "receiver s1 \<noteq> None" "sender s1 \<noteq> None" "flushed s1"
    using assms(2-4) by (simp_all add: s1_def flushed_def)
  have s1f: "outbound s1 = outbound s" "trace s1 = trace s @ replicate (invoked d) HandlerCall"
    by (simp_all add: s1_def)
  show ?thesis
  proof (cases "outcome d")
    case (Inr resp')
    obtain rb s2 where sd: "send E (ok_message (MessageToDict E resp')) 0 s1 = (rb, s2)"
      by (cases "send E (ok_message (MessageToDict E resp')) 0 s1")
    from send_opened_result [OF pre(1) pre(2) sd]
    show ?thesis
    proof
      assume ok: "rb = Inr () \<and> trace s2 = trace s1 @ [Select Sender, Write, Flush]"
      then have "try_dispatch E callType req resp s = (Inr (), s2)"
        using Inr sd by (simp add: try_dispatch_def Let_def d_def s1_def)
      then have "s' = s2" using assms(1) by simp
      moreover have "outbound s2 = outbound s1 @ ok_message (MessageToDict E resp') @ ''\<newline>''"
        using send_appends [OF _ pre(3)] sd ok by simp
      ultimately show ?thesis using ok s1f by auto
    next
      assume "\<exists>e. rb = Inl e \<and> (\<forall>code details. e \<noteq> FIFOContextAbortedError code details)"
      then obtain e where e: "rb = Inl e" "\<forall>code details. e \<noteq> FIFOContextAbortedError code details"
        by blast
      have "try_dispatch E callType req resp s = (Inl e, s2)"
        using Inr sd e by (cases e) (simp_all add: try_dispatch_def Let_def d_def s1_def)
      then show ?thesis using assms(1) by simp
    qed
  next
    case (Inl e)
    show ?thesis
    proof (cases "\<exists>code details. e = FIFOContextAbortedError code details")
      case True
      then obtain code details where e: "e = FIFOContextAbortedError code details" by blast
      have "try_dispatch E callType req resp s = send E (abort_message code details) 0 s1"
        using Inl e by (simp add: try_dispatch_def Let_def d_def s1_def)
      then have sd: "send E (abort_message code details) 0 s1 = (Inr (), s')"
        using assms(1) by simp
      have "outbound s' = outbound s1 @ abort_message code details @ ''\<newline>''"
        using send_appends [OF sd pre(3)] .
      moreover have "trace s' = trace s1 @ [Select Sender, Write, Flush]"
        using send_opened_result [OF pre(1) pre(2) sd] by simp
      ultimately show ?thesis using s1f by auto
    next
      case False
      then have "try_dispatch E callType req resp s = (Inl e, s1)"
        using Inl by (cases e) (simp_all add: try_dispatch_def Let_def d_def s1_def)
      then show ?thesis using assms(1) by simp
    qed
  qed
qed

lemma serveOnce_locked_frame:
  assumes "serveOnce_locked E s = (r, s')"
  shows "\<exists>evs. trace s' = trace s @ evs \<and> LockAcquire \<notin> set evs \<and> LockRelease \<notin> set evs"
    "r \<noteq> Inr () \<Longrightarrow> outbound s' = outbound s"
proof -
  obtain rr s1 where recv: "receive E 0 s = (rr, s1)" by (cases "receive E 0 s")
  note rf = receive_frame [OF recv]
  from rf(3) obtain e1 where e1: "trace s1 = trace s @ e1" "LockAcquire \<notin> set e1"
    "LockRelease \<notin> set e1" by blast
  have "(\<exists>evs. trace s' = trace s1 @ evs \<and> LockAcquire \<notin> set evs \<and> LockRelease \<notin> set evs)
      \<and> (r \<noteq> Inr () \<longrightarrow> outbound s' = outbound s1)"
  proof (cases rr)
    case (Inl e)
    then have "s' = s1" using assms recv by (simp add: serveOnce_locked_def)
    then show ?thesis by simp
  next
    case (Inr line)
    show ?thesis
    proof (cases "decode E line")
      case (Inl e)
      then have "s' = s1" using assms recv Inr by (simp add: serveOnce_locked_def)
      then show ?thesis by simp
    next
      case dec: (Inr t)
      obtain callType req resp where t: "t = (callType, req, resp)" by (cases t)
      have "try_dispatch E callType req resp s1 = (r, s')"
        using assms recv Inr dec t by (simp add: serveOnce_locked_def)
      from try_dispatch_frame(3,4) [OF this] show ?thesis by blast
    qed
  qed
  then obtain e2 where e2: "trace s' = trace s1 @ e2" "LockAcquire \<notin> set e2"
    "LockRelease \<notin> set e2" and ob: "r \<noteq> Inr () \<longrightarrow> outbound s' = outbound s1" by blast
  have "trace s' = trace s @ (e1 @ e2)" using e1(1) e2(1) by simp
  moreover have "LockAcquire \<notin> set (e1 @ e2)" "LockRelease \<notin> set (e1 @ e2)"
    using e1 e2 by auto
  ultimately show "\<exists>evs. trace s' = trace s @ evs \<and> LockAcquire \<notin> set evs \<and> LockRelease \<notin> set evs"
    by blast
  show "outbound s' = outbound s" if "r \<noteq> Inr ()"
    using that ob rf(2) by simp
qed

lemma serveOnce_locked_served:
  assumes "serveOnce_locked E s = (Inr (), s')" and "flushed s"
  shows "\<exists>msg opens n. inbound s = fst (readline (inbound s)) @ inbound s'
     \<and> outbound s' = outbound s @ msg @ ''\<newline>''
     \<and> ((\<exists>resp'. msg = ok_message (MessageToDict E resp')) \<or> (\<exists>code details. msg = abort_message code details))
     \<and> trace s' = trace s @ opens @ [Select Receiver, ReadLine] @ replicate n HandlerCall
          @ [Select Sender, Write, Flush]
     \<and> set opens \<subseteq> {Open Receiver, Open Sender}"
proof -
  obtain rr s1 where recv: "receive E 0 s = (rr, s1)" by (cases "receive E 0 s")
  have "\<exists>line. rr = Inr line"
  proof (cases rr)
    case (Inl e)
    then show ?thesis using assms(1) recv by (simp add: serveOnce_locked_def)
  qed simp
  then obtain line where rr: "rr = Inr line" by blast
  note rf = receive_frame [OF recv]
  from rf(5) [OF rr] have opened: "receiver s1 \<noteq> None" "sender s1 \<noteq> None"
    and ib: "inbound s1 = snd (readline (inbound s))" by simp_all
  have fl: "flushed s1" using rf(4) [OF assms(2)] .
  from receive_trace [OF recv [unfolded rr]] obtain opens where
    tr1: "trace s1 = trace s @ opens @ [Select Receiver, ReadLine]"
    and op: "set opens \<subseteq> {Open Receiver, Open Sender}" by blast
  have "\<exists>callType req resp. decode E line = Inr (callType, req, resp)"
  proof (cases "decode E line")
    case (Inl e)
    then show ?thesis using assms(1) recv rr by (simp add: serveOnce_locked_def)
  next
    case (Inr t)
    then show ?thesis by (cases t) simp
  qed
  then obtain callType req resp where dec: "decode E line = Inr (callType, req, resp)" by blast
  have td: "try_dispatch E callType req resp s1 = (Inr (), s')"
    using assms(1) recv rr dec by (simp add: serveOnce_locked_def)
  from try_dispatch_served [OF td opened fl] obtain msg n where
    ob: "outbound s' = outbound s1 @ msg @ ''\<newline>''"
    and kind: "(\<exists>resp'. msg = ok_message (MessageToDict E resp')) \<or> (\<exists>code details. msg = abort_message code details)"
    and tr2: "trace s' = trace s1 @ replicate n HandlerCall @ [Select Sender, Write, Flush]"
    by blast
  have ib': "inbound s' = inbound s1" using try_dispatch_frame(2) [OF td] .
  have "inbound s = fst (readline (inbound s)) @ inbound s'"
    using ib ib' readline_split [of "inbound s"] by simp
  moreover have "outbound s' = outbound s @ msg @ ''\<newline>''"
    using ob rf(2) by simp
  moreover have "trace s' = trace s @ opens @ [Select Receiver, ReadLine] @ replicate n HandlerCall
          @ [Select Sender, Write, Flush]"
    using tr1 tr2 by simp
  ultimately show ?thesis using kind op by blast
qed

lemma close_trace:
  "\<exists>body. trace (close s) = trace s @ [LockAcquire] @ body @ [LockRelease]
     \<and> set body \<subseteq> {Close Receiver, Close Sender}"
proof -
  have "\<exists>body. trace (close_locked t) = trace t @ body \<and> set body \<subseteq> {Close Receiver, Close Sender}"
    for t :: "'a fifo"
    by (auto simp: close_locked_def Let_def split: option.splits)
  from this [of "acquire s"] obtain body where
    "trace (close_locked (acquire s)) = trace (acquire s) @ body"
    "set body \<subseteq> {Close Receiver, Close Sender}" by blast
  then show ?thesis by (auto simp: close_def)
qed

lemma hexdigit_no_nl: "hexdigit n \<noteq> CHR 0x0A"
proof -
  have "hexdigit n \<in> set ''0123456789abcdef''"
    unfolding hexdigit_def by (rule nth_mem) simp
  then show ?thesis by auto
qed

lemma str_nat_no_nl: "CHR 0x0A \<notin> set (str_nat n)"
proof (induction n rule: str_nat.induct)
  case (1 n)
  show ?case
  proof (cases "n < 10")
    case True
    then show ?thesis using hexdigit_no_nl [of n] by (subst str_nat.simps) auto
  next
    case False
    then show ?thesis
      using 1 hexdigit_no_nl [of "n mod 10"] by (subst str_nat.simps) auto
  qed
qed

lemma str_int_no_nl: "CHR 0x0A \<notin> set (str_int i)"
  using str_nat_no_nl by (simp add: str_int_def)

lemma json_escape_no_nl: "CHR 0x0A \<notin> set (json_escape c)"
  using hexdigit_no_nl [of "of_char c div 16"] hexdigit_no_nl [of "of_char c"]
  by (auto simp: json_escape_def hex2_def)

lemma dumps_str_no_nl: "CHR 0x0A \<notin> set (dumps_str s)"
  using json_escape_no_nl by (auto simp: dumps_str_def)

lemma join_no_nl:
  assumes "CHR 0x0A \<notin> set sep" and "\<forall>x \<in> set xs. CHR 0x0A \<notin> set x"
  shows "CHR 0x0A \<notin> set (join sep xs)"
  using assms by (induction sep xs rule: join.induct) auto

lemma dumps_no_nl: "no_line_break j \<Longrightarrow> CHR 0x0A \<notin> set (dumps j)"
proof (induction j)
  case (JList xs)
  have "\<forall>x \<in> set (map dumps xs). CHR 0x0A \<notin> set x"
    using JList by auto
  then have "CHR 0x0A \<notin> set (join '', '' (map dumps xs))"
    by (intro join_no_nl) simp_all
  then show ?case by simp
next
  case (JDict kvs)
  have "\<forall>x \<in> set (map (\<lambda>kv. dumps_str (fst kv) @ '': '' @ dumps (snd kv)) kvs). CHR 0x0A \<notin> set x"
  proof
    fix x assume "x \<in> set (map (\<lambda>kv. dumps_str (fst kv) @ '': '' @ dumps (snd kv)) kvs)"
    then obtain kv where kv: "kv \<in> set kvs" and x: "x = dumps_str (fst kv) @ '': '' @ dumps (snd kv)"
      by auto
    have "snd kv \<in> Basic_BNFs.snds kv" by (cases kv) simp
    then have "CHR 0x0A \<notin> set (dumps (snd kv))"
      using JDict.IH [OF kv] JDict.prems kv by auto
    then show "CHR 0x0A \<notin> set x"
      using x dumps_str_no_nl [of "fst kv"] by simp
  qed
  then have "CHR 0x0A \<notin> set (join '', '' (map (\<lambda>kv. dumps_str (fst kv) @ '': '' @ dumps (snd kv)) kvs))"
    by (intro join_no_nl) simp_all
  then show ?case by simp
qed (simp_all add: str_int_no_nl dumps_str_no_nl)

lemma abort_message_no_nl: "CHR 0x0A \<notin> set (abort_message code details)"
  unfolding abort_message_def by (rule dumps_no_nl) simp

lemma ok_message_no_nl: "no_line_break v \<Longrightarrow> CHR 0x0A \<notin> set (ok_message v)"
  unfolding ok_message_def by (rule dumps_no_nl) simp

lemma dumps_str_keys:
  \<open>dumps_str ''code'' = ''"code"''\<close>
  \<open>dumps_str ''value'' = ''"value"''\<close>
  \<open>dumps_str ''OK'' = ''"OK"''\<close>
  \<open>dumps_str ''StatusCode.INVALID_ARGUMENT'' = ''"StatusCode.INVALID_ARGUMENT"''\<close>
  \<open>dumps_str ''StatusCode.UNIMPLEMENTED'' = ''"StatusCode.UNIMPLEMENTED"''\<close>
  \<open>dumps_str ''StatusCode.UNKNOWN'' = ''"StatusCode.UNKNOWN"''\<close>
  by code_simp+

lemma abort_message_text:
  \<open>abort_message INVALID_ARGUMENT details =
     ''{"code": "StatusCode.INVALID_ARGUMENT", "value": '' @ dumps_str details @ ''}''\<close>
  \<open>abort_message UNIMPLEMENTED details =
     ''{"code": "StatusCode.UNIMPLEMENTED", "value": '' @ dumps_str details @ ''}''\<close>
  \<open>abort_message UNKNOWN details =
     ''{"code": "StatusCode.UNKNOWN", "value": '' @ dumps_str details @ ''}''\<close>
  by (simp_all add: abort_message_def dumps_str_keys)

lemma ok_message_text:
  \<open>ok_message v = ''{"code": "OK", "value": '' @ dumps v @ ''}''\<close>
  by (simp add: ok_message_def dumps_str_keys)

lemma example_no_type:
  "serveOnce example_env (example_fifo\<lparr>inbound := ''{}\<newline>''\<rparr>) =
     (Inl (ValueError ''Message had no 'type' field''),
      example_fifo\<lparr>inbound := [],
        receiver := Some \<lparr>closed = False, buf = []\<rparr>,
        sender := Some \<lparr>closed = False, buf = []\<rparr>,
        trace := [LockAcquire, Open Receiver, Open Sender, Select Receiver, ReadLine, LockRelease]\<rparr>)"
  by (simp add: serveOnce_def serveOnce_locked_def acquire_def release_def receive_def
      ensureOpen_def open_path_def example_fifo_def example_env_def selArgs_timeout_def
      py_any_def readline_def decode_def example_documents_def)

text \<open>
  Claim C8, amended. \<^verbatim>\<open>serveOnce\<close> takes the lock first and gives it back last, and all
  it does to the pipes lies between the two; \<^verbatim>\<open>close\<close> brackets its two closing calls
  with the same lock in the same way. A step that returns has read one line from the
  inbound pipe and then, after the calls of the implementation, written one message and
  one line terminator to the outbound pipe; an abort message holds no line terminator, nor
  does a success message whose floating-point texts hold none. A step that raises has
  written nothing to the outbound pipe.
\<close>

theorem serveOnce_lock_and_lines:
  "(\<exists>body. trace (snd (serveOnce E s)) = trace s @ [LockAcquire] @ body @ [LockRelease]
       \<and> LockAcquire \<notin> set body \<and> LockRelease \<notin> set body)
   \<and> (\<exists>body. trace (close s) = trace s @ [LockAcquire] @ body @ [LockRelease]
       \<and> set body \<subseteq> {Close Receiver, Close Sender})
   \<and> (fst (serveOnce E s) \<noteq> Inr () \<longrightarrow> outbound (snd (serveOnce E s)) = outbound s)
   \<and> (flushed s \<and> fst (serveOnce E s) = Inr () \<longrightarrow>
        (\<exists>msg opens n.
           inbound s = fst (readline (inbound s)) @ inbound (snd (serveOnce E s))
         \<and> outbound (snd (serveOnce E s)) = outbound s @ msg @ ''\<newline>''
         \<and> ((\<exists>resp'. msg = ok_message (MessageToDict E resp')
                \<and> (no_line_break (MessageToDict E resp') \<longrightarrow> CHR 0x0A \<notin> set msg))
            \<or> (\<exists>code details. msg = abort_message code details \<and> CHR 0x0A \<notin> set msg))
         \<and> trace (snd (serveOnce E s)) =
             trace s @ [LockAcquire] @ opens @ [Select Receiver, ReadLine]
               @ replicate n HandlerCall @ [Select Sender, Write, Flush] @ [LockRelease]
         \<and> set opens \<subseteq> {Open Receiver, Open Sender}))"
proof -
  obtain r s' where sl: "serveOnce_locked E (acquire s) = (r, s')"
    by (cases "serveOnce_locked E (acquire s)")
  have so: "serveOnce E s = (r, release s')"
    by (simp add: serveOnce_def sl)
  from serveOnce_locked_frame(1) [OF sl] obtain evs where
    tr: "trace s' = trace (acquire s) @ evs" and nl: "LockAcquire \<notin> set evs" "LockRelease \<notin> set evs"
    by blast
  have a: "\<exists>body. trace (snd (serveOnce E s)) = trace s @ [LockAcquire] @ body @ [LockRelease]
       \<and> LockAcquire \<notin> set body \<and> LockRelease \<notin> set body"
    using tr nl by (simp add: so)
  have c: "fst (serveOnce E s) \<noteq> Inr () \<longrightarrow> outbound (snd (serveOnce E s)) = outbound s"
    using serveOnce_locked_frame(2) [OF sl] by (simp add: so)
  have d: "flushed s \<and> fst (serveOnce E s) = Inr () \<longrightarrow>
        (\<exists>msg opens n.
           inbound s = fst (readline (inbound s)) @ inbound (snd (serveOnce E s))
         \<and> outbound (snd (serveOnce E s)) = outbound s @ msg @ ''\<newline>''
         \<and> ((\<exists>resp'. msg = ok_message (MessageToDict E resp')
                \<and> (no_line_break (MessageToDict E resp') \<longrightarrow> CHR 0x0A \<notin> set msg))
            \<or> (\<exists>code details. msg = abort_message code details \<and> CHR 0x0A \<notin> set msg))
         \<and> trace (snd (serveOnce E s)) =
             trace s @ [LockAcquire] @ opens @ [Select Receiver, ReadLine]
               @ replicate n HandlerCall @ [Select Sender, Write, Flush] @ [LockRelease]
         \<and> set opens \<subseteq> {Open Receiver, Open Sender})"
  proof
    assume h: "flushed s \<and> fst (serveOnce E s) = Inr ()"
    then have sl': "serveOnce_locked E (acquire s) = (Inr (), s')" using sl so by simp
    have fl: "flushed (acquire s)" using h by simp
    from serveOnce_locked_served [OF sl' fl] obtain msg opens n where
      ib: "inbound (acquire s) = fst (readline (inbound (acquire s))) @ inbound s'"
      and ob: "outbound s' = outbound (acquire s) @ msg @ ''\<newline>''"
      and kind: "(\<exists>resp'. msg = ok_message (MessageToDict E resp'))
          \<or> (\<exists>code details. msg = abort_message code details)"
      and tr': "trace s' = trace (acquire s) @ opens @ [Select Receiver, ReadLine]
          @ replicate n HandlerCall @ [Select Sender, Write, Flush]"
      and op: "set opens \<subseteq> {Open Receiver, Open Sender}" by blast
    have one: "(\<exists>resp'. msg = ok_message (MessageToDict E resp')
                \<and> (no_line_break (MessageToDict E resp') \<longrightarrow> CHR 0x0A \<notin> set msg))
            \<or> (\<exists>code details. msg = abort_message code details \<and> CHR 0x0A \<notin> set msg)"
      using kind ok_message_no_nl abort_message_no_nl by blast
    have "inbound s = fst (readline (inbound s)) @ inbound (snd (serveOnce E s))"
      using ib by (simp add: so)
    moreover have "outbound (snd (serveOnce E s)) = outbound s @ msg @ ''\<newline>''"
      using ob by (simp add: so)
    moreover have "trace (snd (serveOnce E s)) =
             trace s @ [LockAcquire] @ opens @ [Select Receiver, ReadLine]
               @ replicate n HandlerCall @ [Select Sender, Write, Flush] @ [LockRelease]"
      using tr' by (simp add: so)
    ultimately show "\<exists>msg opens n.
           inbound s = fst (readline (inbound s)) @ inbound (snd (serveOnce E s))
         \<and> outbound (snd (serveOnce E s)) = outbound s @ msg @ ''\<newline>''
         \<and> ((\<exists>resp'. msg = ok_message (MessageToDict E resp')
                \<and> (no_line_break (MessageToDict E resp') \<longrightarrow> CHR 0x0A \<notin> set msg))
            \<or> (\<exists>code details. msg = abort_message code details \<and> CHR 0x0A \<notin> set msg))
         \<and> trace (snd (serveOnce E s)) =
             trace s @ [LockAcquire] @ opens @ [Select Receiver, ReadLine]
               @ replicate n HandlerCall @ [Select Sender, Write, Flush] @ [LockRelease]
         \<and> set opens \<subseteq> {Open Receiver, Open Sender}"
      using one op by blast
  qed
  show ?thesis using a close_trace [of s] c d by blast
qed


lemma example_served:
  \<open>fst (serveOnce example_env example_fifo) = Inr ()\<close>
  \<open>outbound (snd (serveOnce example_env example_fifo)) =
     ''{"code": "StatusCode.INVALID_ARGUMENT", "value": "Endpoint 'ImageManipulation' invalid input: bad crop"}\<newline>''\<close>
  by code_simp+

theorem serveOnce_lock_and_lines_witness:
  "flushed example_fifo \<and> fst (serveOnce example_env example_fifo) = Inr ()
   \<and> (\<exists>msg opens n.
           inbound example_fifo
             = fst (readline (inbound example_fifo)) @ inbound (snd (serveOnce example_env example_fifo))
         \<and> outbound (snd (serveOnce example_env example_fifo))
             = outbound example_fifo @ msg @ ''\<newline>''
         \<and> ((\<exists>resp'. msg = ok_message (MessageToDict example_env resp')
                \<and> (no_line_break (MessageToDict example_env resp') \<longrightarrow> CHR 0x0A \<notin> set msg))
            \<or> (\<exists>code details. msg = abort_message code details \<and> CHR 0x0A \<notin> set msg))
         \<and> trace (snd (serveOnce example_env example_fifo)) =
             trace example_fifo @ [LockAcquire] @ opens @ [Select Receiver, ReadLine]
               @ replicate n HandlerCall @ [Select Sender, Write, Flush] @ [LockRelease]
         \<and> set opens \<subseteq> {Open Receiver, Open Sender})
   \<and> fst (serveOnce example_env (example_fifo\<lparr>inbound := ''{}\<newline>''\<rparr>)) \<noteq> Inr ()
   \<and> outbound (snd (serveOnce example_env (example_fifo\<lparr>inbound := ''{}\<newline>''\<rparr>)))
       = outbound (example_fifo\<lparr>inbound := ''{}\<newline>''\<rparr>)"
proof -
  have fl: "flushed example_fifo"
    by (simp add: flushed_def example_fifo_def)
  have bad: "fst (serveOnce example_env (example_fifo\<lparr>inbound := ''{}\<newline>''\<rparr>)) \<noteq> Inr ()"
    unfolding example_no_type by simp
  show ?thesis
    using serveOnce_lock_and_lines [of example_env example_fifo]
      serveOnce_lock_and_lines [of example_env "example_fifo\<lparr>inbound := ''{}\<newline>''\<rparr>"]
      fl example_served(1) bad
    by blast
qed

text \<open>
  The request line \<^verbatim>\<open>{}\<close> is read from the inbound pipe and no response line is
  written for it: \<^verbatim>\<open>serveOnce\<close> raises the \<^verbatim>\<open>ValueError\<close> of the missing field.
\<close>

theorem serveOnce_one_response_counterexample:
  "inbound (example_fifo\<lparr>inbound := ''{}\<newline>''\<rparr>) = ''{}\<newline>''
   \<and> fst (serveOnce example_env (example_fifo\<lparr>inbound := ''{}\<newline>''\<rparr>))
       = Inl (ValueError ''Message had no 'type' field'')
   \<and> inbound (snd (serveOnce example_env (example_fifo\<lparr>inbound := ''{}\<newline>''\<rparr>))) = []
   \<and> outbound (snd (serveOnce example_env (example_fifo\<lparr>inbound := ''{}\<newline>''\<rparr>)))
       = outbound (example_fifo\<lparr>inbound := ''{}\<newline>''\<rparr>)"
  unfolding example_no_type by (simp add: example_fifo_def)

section \<open>What the peer of the pipe transport receives\<close>

lemma receive_returned:
  assumes "fst (receive E 0 (acquire s)) = Inr line"
  shows "\<exists>s1. receive E 0 (acquire s) = (Inr line, s1) \<and> impls s1 = impls s
     \<and> outbound s1 = outbound s \<and> receiver s1 \<noteq> None \<and> sender s1 \<noteq> None
     \<and> (flushed s \<longrightarrow> flushed s1) \<and> (can_send E s \<longrightarrow> can_send E s1)
     \<and> (\<exists>evs. trace s1 = trace s @ evs \<and> HandlerCall \<notin> set evs)"
proof -
  obtain s1 where recv: "receive E 0 (acquire s) = (Inr line, s1)"
    using assms by (cases "receive E 0 (acquire s)") simp
  note rf = receive_frame [OF recv]
  from rf(3) obtain evs where "trace s1 = trace (acquire s) @ evs" "HandlerCall \<notin> set evs"
    by blast
  then have "trace s1 = trace s @ (LockAcquire # evs)" "HandlerCall \<notin> set (LockAcquire # evs)"
    by simp_all
  then have tr: "\<exists>evs. trace s1 = trace s @ evs \<and> HandlerCall \<notin> set evs" by blast
  have "flushed s \<longrightarrow> flushed s1" using rf(4) by simp
  moreover have "can_send E s \<longrightarrow> can_send E s1" using receive_can_send [OF recv] by simp
  ultimately show ?thesis using recv rf(1) rf(2) rf(5) [OF refl] tr by auto
qed





lemma serveOnce_abort_sent:
  assumes "fst (receive E 0 (acquire s)) = Inr line"
    and "decode E line = Inr (callType, req, resp)"
    and "outcome (CallEndpoint (format_exc E) s callType req resp FIFOContext)
      = Inl (FIFOContextAbortedError code details)"
    and "can_send E s" and "flushed s"
  shows "fst (serveOnce E s) = Inr ()
     \<and> outbound (snd (serveOnce E s)) = outbound s @ abort_message code details @ ''\<newline>''"
proof -
  from receive_returned [OF assms(1)] obtain s1 where
    recv: "receive E 0 (acquire s) = (Inr line, s1)" and im: "impls s1 = impls s"
    and ob: "outbound s1 = outbound s" and op: "receiver s1 \<noteq> None" "sender s1 \<noteq> None"
    and fl: "flushed s1" and cs: "can_send E s1"
    using assms(4) assms(5) by blast
  have same: "CallEndpoint (format_exc E) s1 callType req resp FIFOContext
      = CallEndpoint (format_exc E) s callType req resp FIFOContext"
    by (simp add: CallEndpoint_def im)
  from try_dispatch_aborted [OF assms(3) [folded same] op cs fl]
  obtain s' where td: "try_dispatch E callType req resp s1 = (Inr (), s')"
    and ob': "outbound s' = outbound s1 @ abort_message code details @ ''\<newline>''" by blast
  have "serveOnce E s = (Inr (), release s')"
    using serveOnce_dispatched [OF recv assms(2)] td by simp
  then show ?thesis using ob ob' by simp
qed




text \<open>
  Claim C4, amended. When \<^verbatim>\<open>serveOnce\<close> has received and decoded a request and the
  implementation raises a \<^verbatim>\<open>ValueError\<close>, and the outbound pipe takes the write, the step
  returns and the one line it has added to the outbound pipe is the JSON object with the
  field \<^verbatim>\<open>code\<close> equal to \<^verbatim>\<open>StatusCode.INVALID_ARGUMENT\<close>, which is \<^verbatim>\<open>str\<close> of the status
  code, and the field \<^verbatim>\<open>value\<close> equal to the abort message
  \<^verbatim>\<open>Endpoint <repr of the type> invalid input: <text of the exception>\<close>, written with the
  separators \<^verbatim>\<open>", "\<close> and \<^verbatim>\<open>": "\<close>. The line holds no traceback and no line terminator
  before its end.
\<close>

theorem serveOnce_invalid_input:
  assumes "fst (receive E 0 (acquire s)) = Inr line"
    and "decode E line = Inr (callType, req, resp)"
    and "impls s callType = Some (Callable f)"
    and "f req resp = (resp', Some (ValueError m))"
    and "can_send E s" and "flushed s"
  shows \<open>fst (serveOnce E s) = Inr ()
     \<and> outbound (snd (serveOnce E s)) =
         outbound s @ ''{"code": "StatusCode.INVALID_ARGUMENT", "value": ''
           @ dumps_str (''Endpoint '' @ py_repr callType @ '' invalid input: '' @ m) @ ''}''
           @ ''\<newline>''
     \<and> CHR 0x0A \<notin> set (''{"code": "StatusCode.INVALID_ARGUMENT", "value": ''
           @ dumps_str (''Endpoint '' @ py_repr callType @ '' invalid input: '' @ m) @ ''}'')\<close>
proof -
  have oc: "outcome (CallEndpoint (format_exc E) s callType req resp FIFOContext)
      = Inl (FIFOContextAbortedError INVALID_ARGUMENT
          (''Endpoint '' @ py_repr callType @ '' invalid input: '' @ m))"
    using CallEndpoint_raising [OF assms(3) assms(4), of "format_exc E" FIFOContext]
    by (simp add: aborted_def)
  note sent = serveOnce_abort_sent [OF assms(1) assms(2) oc assms(5) assms(6)]
  have nl: "CHR 0x0A \<notin> set (abort_message INVALID_ARGUMENT
      (''Endpoint '' @ py_repr callType @ '' invalid input: '' @ m))"
    by (rule abort_message_no_nl)
  show ?thesis
    using sent nl unfolding abort_message_text by simp
qed

lemma example_request:
  \<open>fst (receive example_env 0 (acquire example_fifo)) = Inr ''{"type": "imgmanip", "value": {}}\<newline>''\<close>
  \<open>decode example_env ''{"type": "imgmanip", "value": {}}\<newline>'' = Inr (''ImageManipulation'', JDict [], JDict [])\<close>
  \<open>can_send example_env example_fifo\<close>
  \<open>flushed example_fifo\<close>
  \<open>outbound example_fifo = []\<close>
  by code_simp+

lemma example_value_text:
  \<open>dumps_str (''Endpoint '' @ py_repr ''ImageManipulation'' @ '' invalid input: '' @ ''bad crop'')
     = ''"Endpoint 'ImageManipulation' invalid input: bad crop"''\<close>
  by code_simp

theorem serveOnce_invalid_input_witness:
  \<open>fst (serveOnce example_env example_fifo) = Inr ()
   \<and> outbound (snd (serveOnce example_env example_fifo)) =
       ''{"code": "StatusCode.INVALID_ARGUMENT", "value": "Endpoint 'ImageManipulation' invalid input: bad crop"}\<newline>''\<close>
proof -
  have h: "impls example_fifo ''ImageManipulation''
      = Some (Callable (\<lambda>req resp. (resp, Some (ValueError ''bad crop''))))"
    using example_service_impls(1)
    by (simp add: example_fifo_def bad_crop_handler_def IMAGE_MANIPULATION_def)
  have r: "(\<lambda>req resp. (resp, Some (ValueError ''bad crop''))) (JDict []) (JDict [])
      = (JDict [], Some (ValueError ''bad crop''))"
    by simp
  show ?thesis
    using serveOnce_invalid_input [OF example_request(1) example_request(2) h r
        example_request(3) example_request(4)]
    unfolding example_value_text example_request(5) by simp
qed

text \<open>
  With the implementation that raises \<^verbatim>\<open>ValueError("bad crop")\<close>, the line on the outbound
  pipe carries \<^verbatim>\<open>StatusCode.INVALID_ARGUMENT\<close>; the text \<^verbatim>\<open>InvalidArgument\<close> occurs nowhere
  in it.
\<close>

theorem serveOnce_code_name_counterexample:
  \<open>outbound (snd (serveOnce example_env example_fifo)) =
       ''{"code": "StatusCode.INVALID_ARGUMENT", "value": "Endpoint 'ImageManipulation' invalid input: bad crop"}\<newline>''
   \<and> outbound (snd (serveOnce example_env example_fifo)) \<noteq>
       ''{"code":"InvalidArgument","value":"bad crop"}\<newline>''
   \<and> \<not> sublist ''InvalidArgument'' (outbound (snd (serveOnce example_env example_fifo)))\<close>
proof -
  have \<open>\<not> sublist ''InvalidArgument''
    ''{"code": "StatusCode.INVALID_ARGUMENT", "value": "Endpoint 'ImageManipulation' invalid input: bad crop"}\<newline>''\<close>
    by code_simp
  then show ?thesis unfolding example_served(2) by simp
qed




section \<open>What the serving step catches and what ends the loop\<close>









end
